theory Spec2Isabelle
  imports Main
begin

section \<open>Data model (models/User)\<close>

text \<open>
  The three roles of \<^verbatim>\<open>UserRole\<close>, the registration input \<^verbatim>\<open>CreateUserData\<close>, the login
  input \<^verbatim>\<open>LoginCredentials\<close> and the directory record \<^verbatim>\<open>User\<close>. Optional fields of the
  TypeScript interfaces are options; \<^verbatim>\<open>undefined\<close> is \<open>None\<close>. Dates are natural numbers.
  The deprecated lowercase name fields of \<^verbatim>\<open>User\<close> are read by no service function and are
  left out. The fields of the records share names, as in the source, and are written
  qualified where two records are in play. A parameter or local variable that the source
  names like a field carries a prime.
\<close>

datatype UserRole = Admin | Staff | Student

record CreateUserData =
  email :: string
  password :: string
  FirstName :: string
  LastName :: string
  cardNumber :: string
  imageBase64 :: "string option"
  role :: UserRole
  department :: string

record LoginCredentials =
  cardNumber :: string
  password :: string

record User =
  uid :: string
  authUid :: string
  email :: string
  FirstName :: string
  LastName :: string
  cardNumber :: string
  nfcId :: "string option"
  imageUrl :: "string option"
  role :: UserRole
  department :: string
  isActive :: bool
  isApproved :: bool
  canApproveStudents :: "bool option"
  createdAt :: nat
  updatedAt :: nat

text \<open>
  A JavaScript error value: its message and, for errors of the Firebase SDK, its code.
  \<^verbatim>\<open>new Error(m)\<close> is \<open>Error m None\<close>.
\<close>

datatype js_error = Error (message: string) (code: "string option")

text \<open>\<^verbatim>\<open>m || d\<close> on strings: the empty string is falsy.\<close>

definition or_default :: "string \<Rightarrow> string \<Rightarrow> string" where
  "or_default m d = (if m = [] then d else m)"

text \<open>Truthiness of an optional string and of an optional boolean.\<close>

definition truthy :: "string option \<Rightarrow> bool" where
  "truthy s = (case s of None \<Rightarrow> False | Some v \<Rightarrow> v \<noteq> [])"

definition is_true :: "bool option \<Rightarrow> bool" where
  "is_true b = (b = Some True)"

definition startsWith :: "string \<Rightarrow> string \<Rightarrow> bool" where
  "startsWith s p = (take (length p) s = p)"

section \<open>The external collaborators\<close>

text \<open>
  The directory (Firestore collection \<^verbatim>\<open>users\<close>), the credential service (Firebase Auth)
  and the image storage are reached only through SDK calls. The world holds their state
  and the list of SDK calls issued so far, oldest first. The list \<open>users\<close> is the
  collection in the order in which a query returns its documents; \<open>uid\<close> of an entry is
  the document id.
\<close>

datatype query =
  AuthUidEq string | CardNumberEq string | NfcIdEq string | RoleEq UserRole | IsApprovedEq bool

text \<open>
  The path of an uploaded image, \<^verbatim>\<open>folder/userId_timestamp.jpg\<close>, kept as its three parts.
\<close>

datatype storage_path = StoragePath string string nat

datatype call =
    GetDocs query
  | GetDoc string
  | SetDoc string
  | UpdateDoc string
  | UploadString storage_path
  | GetDownloadURL storage_path
  | CreateUserWithEmailAndPassword string
  | UpdateProfile string
  | SignInWithEmailAndPassword string
  | SignOut
  | DeleteUser string

record account =
  acc_uid :: string
  acc_email :: string
  acc_password :: string
  displayName :: "string option"

record world =
  users :: "User list"
  accounts :: "account list"
  currentUser :: "string option"
  calls :: "call list"

text \<open>
  What the program does not decide: \<open>faults k\<close> is the infrastructure error, if any, that
  the SDK call number \<open>k\<close> of the run (counted from 0) ends with; the identifiers that the
  SDKs generate, the clock and the download URL of an uploaded image are read at the
  number of calls issued so far.
\<close>

record env =
  faults :: "nat \<Rightarrow> js_error option"
  newAuthUid :: "nat \<Rightarrow> string"
  newDocId :: "nat \<Rightarrow> string"
  clock :: "nat \<Rightarrow> nat"
  downloadURL :: "nat \<Rightarrow> string"

definition fault :: "env \<Rightarrow> world \<Rightarrow> js_error option" where
  "fault E w = faults E (length (calls w))"

definition tick :: "env \<Rightarrow> world \<Rightarrow> nat" where
  "tick E w = clock E (length (calls w))"

definition issue :: "call \<Rightarrow> world \<Rightarrow> world" where
  "issue c w = w\<lparr>calls := calls w @ [c]\<rparr>"

subsection \<open>Firestore\<close>

fun matches :: "query \<Rightarrow> User \<Rightarrow> bool" where
  "matches (AuthUidEq v) u = (authUid u = v)"
| "matches (CardNumberEq v) u = (cardNumber u = v)"
| "matches (NfcIdEq v) u = (nfcId u = Some v)"
| "matches (RoleEq r) u = (role u = r)"
| "matches (IsApprovedEq b) u = (isApproved u = b)"

definition getDocs :: "env \<Rightarrow> query \<Rightarrow> world \<Rightarrow> (js_error + User list) \<times> world" where
  "getDocs E q w =
     (case fault E w of
        Some e \<Rightarrow> (Inl e, issue (GetDocs q) w)
      | None \<Rightarrow> (Inr (filter (matches q) (users w)), issue (GetDocs q) w))"

definition getDoc :: "env \<Rightarrow> string \<Rightarrow> world \<Rightarrow> (js_error + User option) \<times> world" where
  "getDoc E docId w =
     (case fault E w of
        Some e \<Rightarrow> (Inl e, issue (GetDoc docId) w)
      | None \<Rightarrow> (Inr (find (\<lambda>u. uid u = docId) (users w)), issue (GetDoc docId) w))"

text \<open>\<^verbatim>\<open>setDoc\<close> writes the whole document: it replaces a document of that id, or adds one.\<close>

definition setDoc :: "env \<Rightarrow> User \<Rightarrow> world \<Rightarrow> (js_error + unit) \<times> world" where
  "setDoc E d w =
     (case fault E w of
        Some e \<Rightarrow> (Inl e, issue (SetDoc (uid d)) w)
      | None \<Rightarrow>
          (Inr (),
           issue (SetDoc (uid d))
             (w\<lparr>users :=
                  (if uid d \<in> uid ` set (users w)
                   then map (\<lambda>u. if uid u = uid d then d else u) (users w)
                   else users w @ [d])\<rparr>)))"

text \<open>
  The fields of a \<^verbatim>\<open>Partial<User>\<close> that the services write. \<^verbatim>\<open>updateDoc\<close> sets the given
  fields of an existing document and fails with \<^verbatim>\<open>not-found\<close> when there is none.
\<close>

datatype field_update =
    IsApproved bool
  | IsActive bool
  | NfcId string
  | CanApproveStudents bool
  | ImageUrl string
  | UpdatedAt nat

fun apply_field :: "field_update \<Rightarrow> User \<Rightarrow> User" where
  "apply_field (IsApproved b) u = u\<lparr>isApproved := b\<rparr>"
| "apply_field (IsActive b) u = u\<lparr>isActive := b\<rparr>"
| "apply_field (NfcId v) u = u\<lparr>nfcId := Some v\<rparr>"
| "apply_field (CanApproveStudents b) u = u\<lparr>canApproveStudents := Some b\<rparr>"
| "apply_field (ImageUrl v) u = u\<lparr>imageUrl := Some v\<rparr>"
| "apply_field (UpdatedAt t) u = u\<lparr>updatedAt := t\<rparr>"

definition updateDoc ::
  "env \<Rightarrow> string \<Rightarrow> field_update list \<Rightarrow> world \<Rightarrow> (js_error + unit) \<times> world" where
  "updateDoc E docId updateData w =
     (case fault E w of
        Some e \<Rightarrow> (Inl e, issue (UpdateDoc docId) w)
      | None \<Rightarrow>
          if docId \<in> uid ` set (users w)
          then (Inr (),
                issue (UpdateDoc docId)
                  (w\<lparr>users :=
                       map (\<lambda>u. if uid u = docId then fold apply_field updateData u else u)
                         (users w)\<rparr>))
          else (Inl (Error ''No document to update'' (Some ''not-found'')),
                issue (UpdateDoc docId) w))"

subsection \<open>Firebase Storage\<close>

text \<open>The stored images are read by no claim; only the calls and their failures are kept.\<close>

definition uploadString ::
  "env \<Rightarrow> storage_path \<Rightarrow> world \<Rightarrow> (js_error + unit) \<times> world" where
  "uploadString E filename w =
     (case fault E w of
        Some e \<Rightarrow> (Inl e, issue (UploadString filename) w)
      | None \<Rightarrow> (Inr (), issue (UploadString filename) w))"

definition getDownloadURL ::
  "env \<Rightarrow> storage_path \<Rightarrow> world \<Rightarrow> (js_error + string) \<times> world" where
  "getDownloadURL E filename w =
     (case fault E w of
        Some e \<Rightarrow> (Inl e, issue (GetDownloadURL filename) w)
      | None \<Rightarrow> (Inr (downloadURL E (length (calls w))), issue (GetDownloadURL filename) w))"

subsection \<open>Firebase Auth\<close>

text \<open>
  A \<^verbatim>\<open>FirebaseUser\<close> is its \<open>uid\<close>. Creating a credential and signing in make it the current
  user; deleting the current user's credential ends its session. The codes of the
  state-dependent failures are those that \<^verbatim>\<open>handleAuthError\<close> lists.
\<close>

definition auth_error :: "string \<Rightarrow> js_error" where
  "auth_error c = Error (''Firebase: Error ('' @ c @ '').'') (Some c)"

definition createUserWithEmailAndPassword ::
  "env \<Rightarrow> string \<Rightarrow> string \<Rightarrow> world \<Rightarrow> (js_error + string) \<times> world" where
  "createUserWithEmailAndPassword E em pw w =
     (case fault E w of
        Some e \<Rightarrow> (Inl e, issue (CreateUserWithEmailAndPassword em) w)
      | None \<Rightarrow>
          if em \<in> acc_email ` set (accounts w)
          then (Inl (auth_error ''auth/email-already-in-use''),
                issue (CreateUserWithEmailAndPassword em) w)
          else (let u = newAuthUid E (length (calls w)) in
                (Inr u,
                 issue (CreateUserWithEmailAndPassword em)
                   (w\<lparr>accounts := accounts w @
                         [\<lparr>acc_uid = u, acc_email = em, acc_password = pw, displayName = None\<rparr>],
                      currentUser := Some u\<rparr>))))"

definition updateProfile :: "env \<Rightarrow> string \<Rightarrow> string \<Rightarrow> world \<Rightarrow> (js_error + unit) \<times> world" where
  "updateProfile E u name w =
     (case fault E w of
        Some e \<Rightarrow> (Inl e, issue (UpdateProfile u) w)
      | None \<Rightarrow>
          (Inr (),
           issue (UpdateProfile u)
             (w\<lparr>accounts :=
                  map (\<lambda>a. if acc_uid a = u then a\<lparr>displayName := Some name\<rparr> else a)
                    (accounts w)\<rparr>)))"

definition signInWithEmailAndPassword ::
  "env \<Rightarrow> string \<Rightarrow> string \<Rightarrow> world \<Rightarrow> (js_error + string) \<times> world" where
  "signInWithEmailAndPassword E em pw w =
     (case fault E w of
        Some e \<Rightarrow> (Inl e, issue (SignInWithEmailAndPassword em) w)
      | None \<Rightarrow>
          (case find (\<lambda>a. acc_email a = em) (accounts w) of
             None \<Rightarrow> (Inl (auth_error ''auth/user-not-found''),
                       issue (SignInWithEmailAndPassword em) w)
           | Some a \<Rightarrow>
               if acc_password a = pw
               then (Inr (acc_uid a),
                     issue (SignInWithEmailAndPassword em) (w\<lparr>currentUser := Some (acc_uid a)\<rparr>))
               else (Inl (auth_error ''auth/wrong-password''),
                     issue (SignInWithEmailAndPassword em) w)))"

definition signOut :: "env \<Rightarrow> world \<Rightarrow> (js_error + unit) \<times> world" where
  "signOut E w =
     (case fault E w of
        Some e \<Rightarrow> (Inl e, issue SignOut w)
      | None \<Rightarrow> (Inr (), issue SignOut (w\<lparr>currentUser := None\<rparr>)))"

definition deleteUser :: "env \<Rightarrow> string \<Rightarrow> world \<Rightarrow> (js_error + unit) \<times> world" where
  "deleteUser E u w =
     (case fault E w of
        Some e \<Rightarrow> (Inl e, issue (DeleteUser u) w)
      | None \<Rightarrow>
          (Inr (),
           issue (DeleteUser u)
             (w\<lparr>accounts := filter (\<lambda>a. acc_uid a \<noteq> u) (accounts w),
                currentUser := (if currentUser w = Some u then None else currentUser w)\<rparr>)))"

section \<open>ImageService\<close>

text \<open>
  \<^verbatim>\<open>uploadBase64Image\<close> names the file by the folder, the user id and the time of the call,
  uploads the payload to it and asks for its download URL; the \<^verbatim>\<open>catch\<close> replaces every
  error.
\<close>

definition uploadBase64Image ::
  "env \<Rightarrow> string \<Rightarrow> string \<Rightarrow> string \<Rightarrow> world \<Rightarrow> (js_error + string) \<times> world" where
  "uploadBase64Image E base64Image userId folder w =
     (let filename = StoragePath folder userId (tick E w) in
      case uploadString E filename w of
        (Inl error, w1) \<Rightarrow> (Inl (Error ''Failed to upload image'' None), w1)
      | (Inr _, w1) \<Rightarrow>
          (case getDownloadURL E filename w1 of
             (Inl error, w2) \<Rightarrow> (Inl (Error ''Failed to upload image'' None), w2)
           | (Inr url, w2) \<Rightarrow> (Inr url, w2)))"

section \<open>UserService\<close>

text \<open>
  Every method is a \<^verbatim>\<open>try\<close> block whose \<^verbatim>\<open>catch\<close> throws a new error with a fixed message.
  A lookup returns \<open>Inr None\<close> for \<^verbatim>\<open>null\<close>.
\<close>

definition first_doc :: "User list \<Rightarrow> User option" where
  "first_doc docs = (case docs of [] \<Rightarrow> None | userDoc # _ \<Rightarrow> Some userDoc)"


definition getUserByUid :: "env \<Rightarrow> string \<Rightarrow> world \<Rightarrow> (js_error + User option) \<times> world" where
  "getUserByUid E uid' w =
     (case getDoc E uid' w of
        (Inl error, w1) \<Rightarrow> (Inl (Error ''Failed to fetch user data'' None), w1)
      | (Inr userDoc, w1) \<Rightarrow> (Inr userDoc, w1))"

text \<open>The query orders by \<^verbatim>\<open>createdAt\<close>, latest first.\<close>

definition getUsersByRole :: "env \<Rightarrow> UserRole \<Rightarrow> world \<Rightarrow> (js_error + User list) \<times> world" where
  "getUsersByRole E role' w =
     (case getDocs E (RoleEq role') w of
        (Inl error, w1) \<Rightarrow> (Inl (Error ''Failed to fetch users'' None), w1)
      | (Inr docs, w1) \<Rightarrow> (Inr (rev (sort_key createdAt docs)), w1))"

definition getUserByNfcId :: "env \<Rightarrow> string \<Rightarrow> world \<Rightarrow> (js_error + User option) \<times> world" where
  "getUserByNfcId E nfcId' w =
     (if nfcId' = [] then (Inr None, w)
      else case getDocs E (NfcIdEq nfcId') w of
             (Inl error, w1) \<Rightarrow> (Inl (Error ''Failed to fetch user by NFC ID'' None), w1)
           | (Inr docs, w1) \<Rightarrow> (Inr (first_doc docs), w1))"

definition getUserByCardNumber ::
  "env \<Rightarrow> string \<Rightarrow> world \<Rightarrow> (js_error + User option) \<times> world" where
  "getUserByCardNumber E cardNumber' w =
     (if cardNumber' = [] then (Inr None, w)
      else case getDocs E (CardNumberEq cardNumber') w of
             (Inl error, w1) \<Rightarrow> (Inl (Error ''Failed to fetch user by card number'' None), w1)
           | (Inr docs, w1) \<Rightarrow> (Inr (first_doc docs), w1))"

text \<open>
  \<^verbatim>\<open>createUser\<close>: the body of the \<^verbatim>\<open>try\<close> block, then the \<^verbatim>\<open>catch\<close>, which lets the duplicate
  error through and replaces every other one. The image is uploaded only for a non-empty
  payload, and a failed upload is swallowed. The stored document gets \<open>imageUrl\<close> only when
  the URL is truthy and \<open>canApproveStudents\<close> only for staff; the returned object is built
  separately and lists no \<open>canApproveStudents\<close> and no \<open>nfcId\<close>. The password of the input
  is not read.
\<close>

definition createUser_try ::
  "env \<Rightarrow> string \<Rightarrow> CreateUserData \<Rightarrow> world \<Rightarrow> (js_error + User) \<times> world" where
  "createUser_try E authUid' userData w =
     (case getUserByCardNumber E (CreateUserData.cardNumber userData) w of
        (Inl error, w1) \<Rightarrow> (Inl error, w1)
      | (Inr (Some existingCard), w1) \<Rightarrow> (Inl (Error ''Card number already exists'' None), w1)
      | (Inr None, w1) \<Rightarrow>
          (let userRef = newDocId E (length (calls w1));
               (imageUrl', w2) =
                 (if truthy (imageBase64 userData)
                  then (case uploadBase64Image E (the (imageBase64 userData)) userRef
                               ''profile-images'' w1 of
                          (Inr url, w') \<Rightarrow> (Some url, w')
                        | (Inl imageError, w') \<Rightarrow> (None, w'))
                  else (None, w1));
               newUserData =
                 \<lparr>uid = userRef, authUid = authUid',
                  email = CreateUserData.email userData,
                  FirstName = CreateUserData.FirstName userData,
                  LastName = CreateUserData.LastName userData,
                  cardNumber = CreateUserData.cardNumber userData,
                  nfcId = None,
                  imageUrl = (if truthy imageUrl' then imageUrl' else None),
                  role = CreateUserData.role userData,
                  department = CreateUserData.department userData,
                  isActive = True,
                  isApproved = (if CreateUserData.role userData = Admin then True else False),
                  canApproveStudents =
                    (if CreateUserData.role userData = Staff then Some False else None),
                  createdAt = tick E w2, updatedAt = tick E w2\<rparr>
           in case setDoc E newUserData w2 of
                (Inl error, w3) \<Rightarrow> (Inl error, w3)
              | (Inr _, w3) \<Rightarrow>
                  (Inr \<lparr>uid = userRef, authUid = authUid',
                        email = CreateUserData.email userData,
                        FirstName = CreateUserData.FirstName userData,
                        LastName = CreateUserData.LastName userData,
                        cardNumber = CreateUserData.cardNumber userData,
                        nfcId = None,
                        imageUrl = imageUrl',
                        role = CreateUserData.role userData,
                        department = CreateUserData.department userData,
                        isActive = True,
                        isApproved = (if CreateUserData.role userData = Admin then True else False),
                        canApproveStudents = None,
                        createdAt = tick E w3, updatedAt = tick E w3\<rparr>,
                   w3)))"

definition createUser ::
  "env \<Rightarrow> string \<Rightarrow> CreateUserData \<Rightarrow> world \<Rightarrow> (js_error + User) \<times> world" where
  "createUser E authUid' userData w =
     (case createUser_try E authUid' userData w of
        (Inr newUser, w1) \<Rightarrow> (Inr newUser, w1)
      | (Inl error, w1) \<Rightarrow>
          if message error = ''Card number already exists'' then (Inl error, w1)
          else (Inl (Error ''Failed to create user profile'' None), w1))"

text \<open>
  \<^verbatim>\<open>updateUser\<close> adds the refreshed \<open>updatedAt\<close> to the given fields. Its conversion of a
  given \<open>createdAt\<close> is not modelled: no service passes that field.
\<close>

definition updateUser ::
  "env \<Rightarrow> string \<Rightarrow> field_update list \<Rightarrow> world \<Rightarrow> (js_error + unit) \<times> world" where
  "updateUser E uid' updates w =
     (case updateDoc E uid' (updates @ [UpdatedAt (tick E w)]) w of
        (Inl error, w1) \<Rightarrow> (Inl (Error ''Failed to update user'' None), w1)
      | (Inr _, w1) \<Rightarrow> (Inr (), w1))"

definition approveUser :: "env \<Rightarrow> string \<Rightarrow> world \<Rightarrow> (js_error + unit) \<times> world" where
  "approveUser E uid' w =
     (case updateUser E uid' [IsApproved True] w of
        (Inl error, w1) \<Rightarrow> (Inl (Error ''Failed to approve user'' None), w1)
      | (Inr _, w1) \<Rightarrow> (Inr (), w1))"

definition deactivateUser :: "env \<Rightarrow> string \<Rightarrow> world \<Rightarrow> (js_error + unit) \<times> world" where
  "deactivateUser E uid' w =
     (case updateUser E uid' [IsActive False] w of
        (Inl error, w1) \<Rightarrow> (Inl (Error ''Failed to deactivate user'' None), w1)
      | (Inr _, w1) \<Rightarrow> (Inr (), w1))"

text \<open>
  \<^verbatim>\<open>assignNfcId\<close>: the error of the holder check is thrown inside the \<^verbatim>\<open>try\<close> block, so the
  \<^verbatim>\<open>catch\<close> replaces it like any other.
\<close>

definition assignNfcId_try ::
  "env \<Rightarrow> string \<Rightarrow> string \<Rightarrow> world \<Rightarrow> (js_error + unit) \<times> world" where
  "assignNfcId_try E uid' nfcId' w =
     (case getUserByNfcId E nfcId' w of
        (Inl error, w1) \<Rightarrow> (Inl error, w1)
      | (Inr existingUser, w1) \<Rightarrow>
          (case existingUser of
             Some holder \<Rightarrow>
               if uid holder \<noteq> uid'
               then (Inl (Error ''NFC ID already assigned to another user'' None), w1)
               else updateUser E uid' [NfcId nfcId'] w1
           | None \<Rightarrow> updateUser E uid' [NfcId nfcId'] w1))"

definition assignNfcId :: "env \<Rightarrow> string \<Rightarrow> string \<Rightarrow> world \<Rightarrow> (js_error + unit) \<times> world" where
  "assignNfcId E uid' nfcId' w =
     (case assignNfcId_try E uid' nfcId' w of
        (Inl error, w1) \<Rightarrow> (Inl (Error ''Failed to assign NFC ID'' None), w1)
      | (Inr _, w1) \<Rightarrow> (Inr (), w1))"

definition updateStaffApprovalPermission ::
  "env \<Rightarrow> string \<Rightarrow> bool \<Rightarrow> world \<Rightarrow> (js_error + unit) \<times> world" where
  "updateStaffApprovalPermission E uid' canApproveStudents' w =
     (case updateUser E uid' [CanApproveStudents canApproveStudents'] w of
        (Inl error, w1) \<Rightarrow> (Inl (Error ''Failed to update staff permissions'' None), w1)
      | (Inr _, w1) \<Rightarrow> (Inr (), w1))"

section \<open>AuthService\<close>

definition handleAuthError :: "js_error \<Rightarrow> js_error" where
  "handleAuthError error =
     Error
       (case code error of
          None \<Rightarrow> or_default (message error) ''An error occurred during authentication''
        | Some c \<Rightarrow>
            if c = ''auth/email-already-in-use'' then ''This email is already registered''
            else if c = ''auth/invalid-email'' then ''Invalid email address''
            else if c = ''auth/operation-not-allowed'' then ''Operation not allowed''
            else if c = ''auth/weak-password''
              then ''Password is too weak. Please use at least 6 characters''
            else if c = ''auth/user-disabled'' then ''This account has been disabled''
            else if c = ''auth/user-not-found'' then ''No account found with this email''
            else if c = ''auth/wrong-password'' then ''Incorrect password''
            else if c = ''auth/invalid-credential'' then ''Invalid email or password''
            else if c = ''auth/too-many-requests''
              then ''Too many failed attempts. Please try again later''
            else or_default (message error) ''An error occurred during authentication'')
       None"

definition AuthService_register ::
  "env \<Rightarrow> CreateUserData \<Rightarrow> world \<Rightarrow> (js_error + string) \<times> world" where
  "AuthService_register E userData w =
     (case createUserWithEmailAndPassword E (CreateUserData.email userData)
             (CreateUserData.password userData) w of
        (Inl error, w1) \<Rightarrow> (Inl (handleAuthError error), w1)
      | (Inr user, w1) \<Rightarrow>
          (case updateProfile E user
                  (CreateUserData.FirstName userData @ '' '' @ CreateUserData.LastName userData)
                  w1 of
             (Inl error, w2) \<Rightarrow> (Inl (handleAuthError error), w2)
           | (Inr _, w2) \<Rightarrow> (Inr user, w2)))"

text \<open>
  \<^verbatim>\<open>AuthService.login\<close>: the card number is resolved to the stored email, which signs in.
  The \<^verbatim>\<open>catch\<close> lets the generic error through, replaces every error whose code starts with
  \<^verbatim>\<open>auth/\<close> by the generic one, and hands the rest to \<^verbatim>\<open>handleAuthError\<close>.
\<close>

definition AuthService_login_try ::
  "env \<Rightarrow> LoginCredentials \<Rightarrow> world \<Rightarrow> (js_error + string) \<times> world" where
  "AuthService_login_try E credentials w =
     (case getUserByCardNumber E (LoginCredentials.cardNumber credentials) w of
        (Inl error, w1) \<Rightarrow> (Inl error, w1)
      | (Inr None, w1) \<Rightarrow> (Inl (Error ''Invalid card number or password'' None), w1)
      | (Inr (Some user), w1) \<Rightarrow>
          signInWithEmailAndPassword E (email user) (LoginCredentials.password credentials) w1)"

definition AuthService_login ::
  "env \<Rightarrow> LoginCredentials \<Rightarrow> world \<Rightarrow> (js_error + string) \<times> world" where
  "AuthService_login E credentials w =
     (case AuthService_login_try E credentials w of
        (Inr user, w1) \<Rightarrow> (Inr user, w1)
      | (Inl error, w1) \<Rightarrow>
          if message error = ''Invalid card number or password'' then (Inl error, w1)
          else if (case code error of None \<Rightarrow> False | Some c \<Rightarrow> c \<noteq> [] \<and> startsWith c ''auth/'')
            then (Inl (Error ''Invalid card number or password'' None), w1)
          else (Inl (handleAuthError error), w1))"

definition AuthService_logout :: "env \<Rightarrow> world \<Rightarrow> (js_error + unit) \<times> world" where
  "AuthService_logout E w =
     (case signOut E w of
        (Inl error, w1) \<Rightarrow> (Inl (handleAuthError error), w1)
      | (Inr _, w1) \<Rightarrow> (Inr (), w1))"

section \<open>AdminService\<close>

text \<open>
  The bulk operations start one asynchronous task per id, in list order; each task issues
  its single write at once and counts its own outcome. The tasks share nothing but the two
  counters, so the loop below, which runs them in list order, computes the counters and the
  directory that any order of completion gives.
\<close>

record BulkResult =
  success :: nat
  failed :: nat

fun approveBulk_tasks ::
  "env \<Rightarrow> string list \<Rightarrow> BulkResult \<Rightarrow> world \<Rightarrow> BulkResult \<times> world" where
  "approveBulk_tasks E [] r w = (r, w)"
| "approveBulk_tasks E (uid' # uids) r w =
     (case approveUser E uid' w of
        (Inr _, w1) \<Rightarrow> approveBulk_tasks E uids (r\<lparr>success := success r + 1\<rparr>) w1
      | (Inl error, w1) \<Rightarrow> approveBulk_tasks E uids (r\<lparr>failed := failed r + 1\<rparr>) w1)"

definition approveBulk :: "env \<Rightarrow> string list \<Rightarrow> world \<Rightarrow> (js_error + BulkResult) \<times> world" where
  "approveBulk E uids w =
     (case approveBulk_tasks E uids \<lparr>success = 0, failed = 0\<rparr> w of
        (r, w1) \<Rightarrow> (Inr r, w1))"

definition grantApprovalRights_try ::
  "env \<Rightarrow> string \<Rightarrow> world \<Rightarrow> (js_error + unit) \<times> world" where
  "grantApprovalRights_try E staffUid w =
     (case getUserByUid E staffUid w of
        (Inl error, w1) \<Rightarrow> (Inl error, w1)
      | (Inr None, w1) \<Rightarrow> (Inl (Error ''User not found'' None), w1)
      | (Inr (Some user), w1) \<Rightarrow>
          if role user \<noteq> Staff
          then (Inl (Error ''Only staff members can be granted approval rights'' None), w1)
          else updateStaffApprovalPermission E staffUid True w1)"

definition grantApprovalRights :: "env \<Rightarrow> string \<Rightarrow> world \<Rightarrow> (js_error + unit) \<times> world" where
  "grantApprovalRights E staffUid w =
     (case grantApprovalRights_try E staffUid w of
        (Inl error, w1) \<Rightarrow>
          (Inl (Error (or_default (message error) ''Failed to grant approval rights'') None), w1)
      | (Inr _, w1) \<Rightarrow> (Inr (), w1))"

definition revokeApprovalRights_try ::
  "env \<Rightarrow> string \<Rightarrow> world \<Rightarrow> (js_error + unit) \<times> world" where
  "revokeApprovalRights_try E staffUid w =
     (case getUserByUid E staffUid w of
        (Inl error, w1) \<Rightarrow> (Inl error, w1)
      | (Inr None, w1) \<Rightarrow> (Inl (Error ''User not found'' None), w1)
      | (Inr (Some user), w1) \<Rightarrow>
          if role user \<noteq> Staff
          then (Inl (Error ''Only staff members have approval rights'' None), w1)
          else updateStaffApprovalPermission E staffUid False w1)"

definition revokeApprovalRights :: "env \<Rightarrow> string \<Rightarrow> world \<Rightarrow> (js_error + unit) \<times> world" where
  "revokeApprovalRights E staffUid w =
     (case revokeApprovalRights_try E staffUid w of
        (Inl error, w1) \<Rightarrow>
          (Inl (Error (or_default (message error) ''Failed to revoke approval rights'') None), w1)
      | (Inr _, w1) \<Rightarrow> (Inr (), w1))"

definition toggleApprovalRights_try ::
  "env \<Rightarrow> string \<Rightarrow> world \<Rightarrow> (js_error + bool) \<times> world" where
  "toggleApprovalRights_try E staffUid w =
     (case getUserByUid E staffUid w of
        (Inl error, w1) \<Rightarrow> (Inl error, w1)
      | (Inr None, w1) \<Rightarrow> (Inl (Error ''User not found'' None), w1)
      | (Inr (Some user), w1) \<Rightarrow>
          if role user \<noteq> Staff
          then (Inl (Error ''Only staff members can have approval rights'' None), w1)
          else (let newValue = \<not> is_true (canApproveStudents user) in
                case updateStaffApprovalPermission E staffUid newValue w1 of
                  (Inl error, w2) \<Rightarrow> (Inl error, w2)
                | (Inr _, w2) \<Rightarrow> (Inr newValue, w2)))"

definition toggleApprovalRights :: "env \<Rightarrow> string \<Rightarrow> world \<Rightarrow> (js_error + bool) \<times> world" where
  "toggleApprovalRights E staffUid w =
     (case toggleApprovalRights_try E staffUid w of
        (Inl error, w1) \<Rightarrow>
          (Inl (Error (or_default (message error) ''Failed to toggle approval rights'') None), w1)
      | (Inr newValue, w1) \<Rightarrow> (Inr newValue, w1))"

definition assignNfcCard :: "env \<Rightarrow> string \<Rightarrow> string \<Rightarrow> world \<Rightarrow> (js_error + unit) \<times> world" where
  "assignNfcCard E uid' nfcId' w =
     (case assignNfcId E uid' nfcId' w of
        (Inl error, w1) \<Rightarrow>
          (Inl (Error (or_default (message error) ''Failed to assign NFC card'') None), w1)
      | (Inr _, w1) \<Rightarrow> (Inr (), w1))"

section \<open>StaffService\<close>

definition approveStudent_try ::
  "env \<Rightarrow> User \<Rightarrow> string \<Rightarrow> world \<Rightarrow> (js_error + unit) \<times> world" where
  "approveStudent_try E staffUser studentUid w =
     (if role staffUser \<noteq> Staff
      then (Inl (Error ''Only staff members can approve students'' None), w)
      else if \<not> is_true (canApproveStudents staffUser)
      then (Inl (Error ''You do not have permission to approve students'' None), w)
      else case getUserByUid E studentUid w of
             (Inl error, w1) \<Rightarrow> (Inl error, w1)
           | (Inr None, w1) \<Rightarrow> (Inl (Error ''Student not found'' None), w1)
           | (Inr (Some student), w1) \<Rightarrow>
               if role student \<noteq> Student
               then (Inl (Error ''Can only approve students'' None), w1)
               else if department student \<noteq> department staffUser
               then (Inl (Error ''Can only approve students in your department'' None), w1)
               else approveUser E studentUid w1)"

definition approveStudent ::
  "env \<Rightarrow> User \<Rightarrow> string \<Rightarrow> world \<Rightarrow> (js_error + unit) \<times> world" where
  "approveStudent E staffUser studentUid w =
     (case approveStudent_try E staffUser studentUid w of
        (Inl error, w1) \<Rightarrow>
          (Inl (Error (or_default (message error) ''Failed to approve student'') None), w1)
      | (Inr _, w1) \<Rightarrow> (Inr (), w1))"

text \<open>
  The department-scoped bulk approval: the permission check and the student query come
  first and abort the whole batch; then one task per id, which counts an id outside the
  department as failed without any write.
\<close>

fun approveStudentsBulk_tasks ::
  "env \<Rightarrow> string list \<Rightarrow> string list \<Rightarrow> BulkResult \<Rightarrow> world \<Rightarrow> BulkResult \<times> world" where
  "approveStudentsBulk_tasks E departmentStudentIds [] r w = (r, w)"
| "approveStudentsBulk_tasks E departmentStudentIds (uid' # uids) r w =
     (if uid' \<notin> set departmentStudentIds
      then approveStudentsBulk_tasks E departmentStudentIds uids (r\<lparr>failed := failed r + 1\<rparr>) w
      else case approveUser E uid' w of
             (Inr _, w1) \<Rightarrow>
               approveStudentsBulk_tasks E departmentStudentIds uids
                 (r\<lparr>success := success r + 1\<rparr>) w1
           | (Inl error, w1) \<Rightarrow>
               approveStudentsBulk_tasks E departmentStudentIds uids
                 (r\<lparr>failed := failed r + 1\<rparr>) w1)"

definition approveStudentsBulk ::
  "env \<Rightarrow> User \<Rightarrow> string list \<Rightarrow> world \<Rightarrow> (js_error + BulkResult) \<times> world" where
  "approveStudentsBulk E staffUser studentUids w =
     (if \<not> is_true (canApproveStudents staffUser)
      then (Inl (Error (or_default ''You do not have permission to approve students''
                          ''Failed to complete bulk approval'') None), w)
      else case getUsersByRole E Student w of
             (Inl error, w1) \<Rightarrow>
               (Inl (Error (or_default (message error) ''Failed to complete bulk approval'') None),
                w1)
           | (Inr students, w1) \<Rightarrow>
               (let departmentStudentIds =
                      map uid (filter (\<lambda>s. department s = department staffUser) students)
                in case approveStudentsBulk_tasks E departmentStudentIds studentUids
                          \<lparr>success = 0, failed = 0\<rparr> w1 of
                     (r, w2) \<Rightarrow> (Inr r, w2)))"

section \<open>AuthContext\<close>

text \<open>
  The state of the provider and its \<^verbatim>\<open>login\<close> and \<^verbatim>\<open>register\<close>. Each is the \<^verbatim>\<open>try\<close> block,
  then the \<^verbatim>\<open>catch\<close>, which records the message and throws the caught error again, then the
  \<^verbatim>\<open>finally\<close>. The listener on the authentication state runs on its own and is not part
  of these two functions.
\<close>

record AuthContextState =
  user :: "User option"
  firebaseUser :: "string option"
  loading :: bool
  error :: "string option"



text \<open>
  The rollback of \<^verbatim>\<open>register\<close>: delete the credential; when that fails, sign out; the error
  of either is logged and dropped.
\<close>

definition rollback :: "env \<Rightarrow> string \<Rightarrow> world \<Rightarrow> world" where
  "rollback E firebaseUser' w =
     (case deleteUser E firebaseUser' w of
        (Inr _, w1) \<Rightarrow> w1
      | (Inl deleteErr, w1) \<Rightarrow>
          (case AuthService_logout E w1 of
             (Inr _, w2) \<Rightarrow> w2
           | (Inl logoutErr, w2) \<Rightarrow> w2))"

definition register ::
  "env \<Rightarrow> CreateUserData \<Rightarrow> AuthContextState \<Rightarrow> world
     \<Rightarrow> (js_error + unit) \<times> AuthContextState \<times> world" where
  "register E userData s w =
     (let s0 = s\<lparr>AuthContextState.loading := True, AuthContextState.error := None\<rparr> in
      case AuthService_register E userData w of
        (Inl err, w1) \<Rightarrow>
          (Inl err,
           s0\<lparr>AuthContextState.error := Some (or_default (message err) ''Failed to register''),
              AuthContextState.loading := False\<rparr>,
           w1)
      | (Inr firebaseUser', w1) \<Rightarrow>
          (case createUser E firebaseUser' userData w1 of
             (Inl err, w2) \<Rightarrow>
               (Inl err,
                s0\<lparr>AuthContextState.error := Some (or_default (message err) ''Failed to register''),
                   AuthContextState.loading := False\<rparr>,
                rollback E firebaseUser' w2)
           | (Inr newUser, w2) \<Rightarrow>
               (Inr (),
                s0\<lparr>AuthContextState.user := Some newUser, firebaseUser := Some firebaseUser',
                   AuthContextState.loading := False\<rparr>,
                w2)))"

section \<open>UserProfileScreen\<close>

text \<open>
  \<^verbatim>\<open>loadUser\<close> of the profile screen, which the kiosk scan opens with the route parameters
  \<^verbatim>\<open>nfcId\<close> and \<^verbatim>\<open>cardNumber\<close>; a parameter that is not a string is \<open>None\<close>. It throws
  nothing: the \<^verbatim>\<open>catch\<close> records the message.
\<close>

record ProfileScreenState =
  user :: "User option"
  loading :: bool
  error :: "string option"

definition DEFAULT_CARD_NUMBER :: string where
  "DEFAULT_CARD_NUMBER = ''Admin01''"

definition loadUser_try ::
  "env \<Rightarrow> string option \<Rightarrow> string option \<Rightarrow> ProfileScreenState \<Rightarrow> world
     \<Rightarrow> (js_error + unit) \<times> ProfileScreenState \<times> world" where
  "loadUser_try E routeNfcId routeCardNumber s w =
     (if truthy routeNfcId
      then (case getUserByNfcId E (the routeNfcId) w of
              (Inl err, w1) \<Rightarrow> (Inl err, s, w1)
            | (Inr profile, w1) \<Rightarrow>
                (Inr (),
                 (if profile = None
                  then s\<lparr>ProfileScreenState.error :=
                            Some (''No user found for NFC ID '' @ the routeNfcId)\<rparr>
                  else s)\<lparr>ProfileScreenState.user := profile\<rparr>,
                 w1))
      else (let cardToUse =
                  (if truthy routeCardNumber then the routeCardNumber else DEFAULT_CARD_NUMBER)
            in case getUserByCardNumber E cardToUse w of
                 (Inl err, w1) \<Rightarrow> (Inl err, s, w1)
               | (Inr profile, w1) \<Rightarrow>
                   (Inr (),
                    (if profile = None
                     then s\<lparr>ProfileScreenState.error := Some (''No user found for card '' @ cardToUse)\<rparr>
                     else s)\<lparr>ProfileScreenState.user := profile\<rparr>,
                    w1)))"

definition loadUser ::
  "env \<Rightarrow> string option \<Rightarrow> string option \<Rightarrow> ProfileScreenState \<Rightarrow> world
     \<Rightarrow> ProfileScreenState \<times> world" where
  "loadUser E routeNfcId routeCardNumber s w =
     (case loadUser_try E routeNfcId routeCardNumber
             (s\<lparr>ProfileScreenState.loading := True, ProfileScreenState.error := None\<rparr>) w of
        (Inl err, s1, w1) \<Rightarrow>
          (s1\<lparr>ProfileScreenState.error :=
                 Some (or_default (message err) ''Failed to load user profile''),
              ProfileScreenState.loading := False\<rparr>,
           w1)
      | (Inr _, s1, w1) \<Rightarrow> (s1\<lparr>ProfileScreenState.loading := False\<rparr>, w1))"

section \<open>Notions of the statements\<close>

text \<open>
  The three kinds of failing login that the login contract names, read off the state of
  the collaborators: the card number resolves to no record; the record's credential
  exists and the secret differs; the credential check ends with an error whose code is
  of the authentication category (an injected one, or the missing credential). \<open>None\<close>
  is every other attempt.
\<close>

datatype login_failure = UnknownCardNumber | WrongSecret | AuthCategoryError

definition is_auth_category :: "js_error \<Rightarrow> bool" where
  "is_auth_category e =
     (case code e of None \<Rightarrow> False | Some c \<Rightarrow> c \<noteq> [] \<and> startsWith c ''auth/'')"

definition login_failure_class ::
  "env \<Rightarrow> LoginCredentials \<Rightarrow> world \<Rightarrow> login_failure option" where
  "login_failure_class E credentials w =
     (case getUserByCardNumber E (LoginCredentials.cardNumber credentials) w of
        (Inl _, _) \<Rightarrow> None
      | (Inr None, _) \<Rightarrow> Some UnknownCardNumber
      | (Inr (Some u), w1) \<Rightarrow>
          (case fault E w1 of
             Some e \<Rightarrow> if is_auth_category e then Some AuthCategoryError else None
           | None \<Rightarrow>
               (case find (\<lambda>a. acc_email a = email u) (accounts w1) of
                  None \<Rightarrow> Some AuthCategoryError
                | Some a \<Rightarrow>
                    if acc_password a = LoginCredentials.password credentials then None
                    else Some WrongSecret)))"

text \<open>The message of the error that a call throws, if it throws.\<close>

definition surfaced_message :: "(js_error + 'a) \<times> world \<Rightarrow> string option" where
  "surfaced_message r = (case fst r of Inl e \<Rightarrow> Some (message e) | Inr _ \<Rightarrow> None)"

text \<open>
  A write of a bulk operation is the pair of its call number and its id. It fails when
  the call fails or the directory has no document of that id. \<open>failed_writes\<close> counts the
  failing ones among the writes to the given ids, issued in list order from the next call
  on. \<open>department_student_ids\<close> are the ids of the students of a staff member's
  department. \<open>department_failures\<close> counts, for a batch of that staff member, the ids
  outside the department and the failing writes to the ids inside it, which are issued
  after the one call of the student query. A record is approved in a world when every
  document of its id is.
\<close>

definition write_fails :: "env \<Rightarrow> world \<Rightarrow> nat \<times> string \<Rightarrow> bool" where
  "write_fails E w = (\<lambda>(k, uid'). faults E k \<noteq> None \<or> uid' \<notin> uid ` set (users w))"

definition failed_writes :: "env \<Rightarrow> world \<Rightarrow> string list \<Rightarrow> nat" where
  "failed_writes E w uids =
     length (filter (write_fails E w) (enumerate (length (calls w)) uids))"

definition department_student_ids :: "User \<Rightarrow> world \<Rightarrow> string list" where
  "department_student_ids staffUser w =
     map uid (filter (\<lambda>s. role s = Student \<and> department s = department staffUser) (users w))"

definition department_failures :: "env \<Rightarrow> User \<Rightarrow> world \<Rightarrow> string list \<Rightarrow> nat" where
  "department_failures E staffUser w uids =
     length (filter (\<lambda>u. u \<notin> set (department_student_ids staffUser w)) uids)
     + failed_writes E (issue (GetDocs (RoleEq Student)) w)
         (filter (\<lambda>u. u \<in> set (department_student_ids staffUser w)) uids)"

definition approved_in :: "world \<Rightarrow> string \<Rightarrow> bool" where
  "approved_in w uid' = (\<forall>x \<in> set (users w). uid x = uid' \<longrightarrow> isApproved x)"

section \<open>Example inputs\<close>

text \<open>
  A small campus: an administrator, a staff member X of department CS who may approve
  students, a pending student Y of department EE who holds the NFC id N1, and a pending
  student Z of department CS. Every record has its credential.
\<close>

definition user_admin :: User where
  "user_admin =
     \<lparr>uid = ''adm'', authUid = ''auth-adm'', email = ''root@u.edu'', FirstName = ''Ada'',
      LastName = ''Root'', cardNumber = ''Admin01'', nfcId = None, imageUrl = None,
      role = Admin, department = ''IT'', isActive = True, isApproved = True,
      canApproveStudents = None, createdAt = 1, updatedAt = 1\<rparr>"

definition staff_X :: User where
  "staff_X =
     \<lparr>uid = ''x'', authUid = ''auth-x'', email = ''x@u.edu'', FirstName = ''Xavier'',
      LastName = ''Staff'', cardNumber = ''S-001'', nfcId = None, imageUrl = None,
      role = Staff, department = ''CS'', isActive = True, isApproved = True,
      canApproveStudents = Some True, createdAt = 2, updatedAt = 2\<rparr>"

definition student_Y :: User where
  "student_Y =
     \<lparr>uid = ''y'', authUid = ''auth-y'', email = ''y@u.edu'', FirstName = ''Yara'',
      LastName = ''Student'', cardNumber = ''C-001'', nfcId = Some ''N1'', imageUrl = None,
      role = Student, department = ''EE'', isActive = True, isApproved = False,
      canApproveStudents = None, createdAt = 3, updatedAt = 3\<rparr>"

definition student_Z :: User where
  "student_Z =
     \<lparr>uid = ''z'', authUid = ''auth-z'', email = ''z@u.edu'', FirstName = ''Zoe'',
      LastName = ''Student'', cardNumber = ''C-002'', nfcId = None, imageUrl = None,
      role = Student, department = ''CS'', isActive = True, isApproved = False,
      canApproveStudents = None, createdAt = 4, updatedAt = 4\<rparr>"

definition credential_of :: "User \<Rightarrow> string \<Rightarrow> account" where
  "credential_of u pw =
     \<lparr>acc_uid = authUid u, acc_email = email u, acc_password = pw, displayName = None\<rparr>"

definition campus :: world where
  "campus =
     \<lparr>users = [user_admin, staff_X, student_Y, student_Z],
      accounts = [credential_of user_admin ''pw-adm'', credential_of staff_X ''pw-x'',
                  credential_of student_Y ''pw-y'', credential_of student_Z ''pw-z''],
      currentUser = None, calls = []\<rparr>"

text \<open>An environment without faults, and one whose call number \<open>k\<close> fails with \<open>e\<close>.\<close>

definition env_ok :: env where
  "env_ok =
     \<lparr>faults = (\<lambda>k. None), newAuthUid = (\<lambda>k. ''auth-new''), newDocId = (\<lambda>k. ''doc-new''),
      clock = (\<lambda>k. 10 + k), downloadURL = (\<lambda>k. ''https://img/new.jpg'')\<rparr>"

definition env_fault :: "nat \<Rightarrow> js_error \<Rightarrow> env" where
  "env_fault k e = env_ok\<lparr>faults := (\<lambda>i. if i = k then Some e else None)\<rparr>"

definition unavailable :: js_error where
  "unavailable = Error ''The service is currently unavailable.'' (Some ''unavailable'')"

definition network_failed :: js_error where
  "network_failed = auth_error ''auth/network-request-failed''"

definition too_many_requests :: js_error where
  "too_many_requests = auth_error ''auth/too-many-requests''"

text \<open>
  A registration that repeats the card number of Y, one with a new card number for a staff
  member, the login of Y with the right secret, and an empty provider state.
\<close>

definition duplicate_card_input :: CreateUserData where
  "duplicate_card_input =
     \<lparr>CreateUserData.email = ''a@u.edu'', password = ''pw123456'', FirstName = ''Ann'',
      LastName = ''Other'', cardNumber = ''C-001'', imageBase64 = None, role = Student,
      department = ''CS''\<rparr>"

definition new_staff_input :: CreateUserData where
  "new_staff_input =
     \<lparr>CreateUserData.email = ''s@u.edu'', password = ''pw123456'', FirstName = ''Sam'',
      LastName = ''Teach'', cardNumber = ''S-002'', imageBase64 = None, role = Staff,
      department = ''CS''\<rparr>"

definition login_Y :: LoginCredentials where
  "login_Y = \<lparr>LoginCredentials.cardNumber = ''C-001'', password = ''pw-y''\<rparr>"

definition signed_out :: AuthContextState where
  "signed_out =
     \<lparr>AuthContextState.user = None, firebaseUser = None, loading = False, error = None\<rparr>"

definition blank_screen :: ProfileScreenState where
  "blank_screen = \<lparr>ProfileScreenState.user = None, loading = True, error = None\<rparr>"

section \<open>Evaluation and general facts\<close>

lemmas sdk_defs = fault_def tick_def issue_def getDocs_def getDoc_def setDoc_def updateDoc_def
  uploadString_def getDownloadURL_def createUserWithEmailAndPassword_def updateProfile_def
  signInWithEmailAndPassword_def signOut_def deleteUser_def auth_error_def

lemmas helper_defs = or_default_def truthy_def is_true_def startsWith_def first_doc_def

lemmas example_defs = user_admin_def staff_X_def student_Y_def student_Z_def credential_of_def
  campus_def env_ok_def env_fault_def unavailable_def network_failed_def too_many_requests_def
  duplicate_card_input_def new_staff_input_def login_Y_def signed_out_def blank_screen_def

lemma first_doc_filter:
  "first_doc (filter P xs) = Some u \<Longrightarrow> u \<in> set xs \<and> P u"
proof -
  assume "first_doc (filter P xs) = Some u"
  then obtain rest where "filter P xs = u # rest"
    by (auto simp: first_doc_def split: list.splits)
  then have "u \<in> set (filter P xs)"
    by simp
  then show ?thesis by simp
qed

lemma getUserByCardNumber_world:
  "getUserByCardNumber E c w = (Inr (Some u), w') \<Longrightarrow>
     w' = issue (GetDocs (CardNumberEq c)) w \<and> u \<in> set (users w) \<and> cardNumber u = c \<and> c \<noteq> []"
  by (auto simp: getUserByCardNumber_def getDocs_def
           split: if_splits option.splits dest: first_doc_filter)


lemma find_map_replace:
  "k \<in> uid ` set xs \<Longrightarrow> uid d = k \<Longrightarrow>
     find (\<lambda>u. uid u = k) (map (\<lambda>u. if uid u = k then d else u) xs) = Some d"
  by (induction xs) auto

lemma find_append_new:
  "k \<notin> uid ` set xs \<Longrightarrow> uid d = k \<Longrightarrow> find (\<lambda>u. uid u = k) (xs @ [d]) = Some d"
  by (induction xs) auto

lemma setDoc_find:
  "setDoc E d w = (Inr x, w') \<Longrightarrow> find (\<lambda>u. uid u = uid d) (users w') = Some d"
  by (auto simp: setDoc_def issue_def find_map_replace find_append_new
           split: option.splits if_splits)

subsection \<open>The rollback of a registration\<close>

lemma rollback_users: "users (rollback E fu w) = users w"
  by (simp add: rollback_def AuthService_logout_def sdk_defs split: option.splits)

lemma rollback_deleted:
  "fault E w = None \<Longrightarrow>
     calls (rollback E fu w) = calls w @ [DeleteUser fu]
     \<and> fu \<notin> acc_uid ` set (accounts (rollback E fu w))"
  by (auto simp add: rollback_def sdk_defs)

lemma rollback_signed_out:
  "fault E w = Some e \<Longrightarrow>
     calls (rollback E fu w) = calls w @ [DeleteUser fu, SignOut]
     \<and> accounts (rollback E fu w) = accounts w
     \<and> (faults E (Suc (length (calls w))) = None \<longrightarrow> currentUser (rollback E fu w) = None)"
  by (auto simp add: rollback_def AuthService_logout_def sdk_defs split: option.splits)

lemma AuthService_register_world:
  "AuthService_register E userData w = (Inr fu, w1) \<Longrightarrow>
     users w1 = users w
     \<and> calls w1 = calls w @ [CreateUserWithEmailAndPassword (CreateUserData.email userData),
                              UpdateProfile fu]
     \<and> fu \<in> acc_uid ` set (accounts w1)"
  by (auto simp: AuthService_register_def sdk_defs Let_def image_iff
           split: option.splits if_splits)


section \<open>Registration\<close>

text \<open>
  Claim C1, as amended. \<^verbatim>\<open>register\<close> creates the credential first and checks the card
  number second, inside \<^verbatim>\<open>createUser\<close>. So: for every registration whose credential was
  created and whose card number the directory lookup then finds, registration fails with
  the duplicate-card-number error, the calls issued are the credential creation, the
  profile update and then the card-number query, and no directory record is written. The
  credential is deleted again by the rollback: when that deletion succeeds no credential
  of the request exists afterwards; when it fails a sign-out follows and the credential
  remains.
\<close>

theorem register_duplicate_card:
  assumes "AuthService_register E userData w = (Inr fu, w1)"
      and "getUserByCardNumber E (CreateUserData.cardNumber userData) w1
             = (Inr (Some existing), w2)"
  shows "register E userData s w =
           (Inl (Error ''Card number already exists'' None),
            s\<lparr>AuthContextState.error := Some ''Card number already exists'',
              AuthContextState.loading := False\<rparr>,
            rollback E fu w2)
       \<and> calls w2 = calls w @ [CreateUserWithEmailAndPassword (CreateUserData.email userData),
                                 UpdateProfile fu,
                                 GetDocs (CardNumberEq (CreateUserData.cardNumber userData))]
       \<and> users (rollback E fu w2) = users w
       \<and> (fault E w2 = None \<longrightarrow>
            calls (rollback E fu w2) = calls w2 @ [DeleteUser fu]
            \<and> fu \<notin> acc_uid ` set (accounts (rollback E fu w2)))
       \<and> (fault E w2 \<noteq> None \<longrightarrow>
            calls (rollback E fu w2) = calls w2 @ [DeleteUser fu, SignOut]
            \<and> fu \<in> acc_uid ` set (accounts (rollback E fu w2)))"
proof -
  note reg = AuthService_register_world [OF assms(1)]
  note look = getUserByCardNumber_world [OF assms(2)]
  have create: "createUser E fu userData w1 = (Inl (Error ''Card number already exists'' None), w2)"
    using assms(2) by (simp add: createUser_def createUser_try_def)
  have run: "register E userData s w =
           (Inl (Error ''Card number already exists'' None),
            s\<lparr>AuthContextState.error := Some ''Card number already exists'',
              AuthContextState.loading := False\<rparr>,
            rollback E fu w2)"
    using assms(1) create by (simp add: register_def Let_def or_default_def)
  have log: "calls w2 = calls w @ [CreateUserWithEmailAndPassword (CreateUserData.email userData),
                                 UpdateProfile fu,
                                 GetDocs (CardNumberEq (CreateUserData.cardNumber userData))]"
    using reg look by (simp add: issue_def)
  have dir: "users (rollback E fu w2) = users w"
    using reg look by (simp add: rollback_users issue_def)
  have acc: "fu \<in> acc_uid ` set (accounts w2)"
    using reg look by (simp add: issue_def)
  have kept: "fault E w2 \<noteq> None \<longrightarrow>
            calls (rollback E fu w2) = calls w2 @ [DeleteUser fu, SignOut]
            \<and> fu \<in> acc_uid ` set (accounts (rollback E fu w2))"
    using rollback_signed_out [of E w2 _ fu] acc by auto
  show ?thesis
    using run log dir kept rollback_deleted [of E w2 fu] by blast
qed

text \<open>
  The theorem at the registration that repeats the card number of Y: the duplicate error
  and the directory as before; no credential left without faults, and the credential left
  when its deletion (call 3) fails.
\<close>

theorem register_duplicate_card_witness:
  "fst (register env_ok duplicate_card_input signed_out campus)
     = Inl (Error ''Card number already exists'' None)
   \<and> users (snd (snd (register env_ok duplicate_card_input signed_out campus))) = users campus
   \<and> ''auth-new'' \<notin> acc_uid ` set (accounts (snd (snd
        (register env_ok duplicate_card_input signed_out campus))))
   \<and> fst (register (env_fault 3 unavailable) duplicate_card_input signed_out campus)
     = Inl (Error ''Card number already exists'' None)
   \<and> ''auth-new'' \<in> acc_uid ` set (accounts (snd (snd
        (register (env_fault 3 unavailable) duplicate_card_input signed_out campus))))"
proof -
  define F where "F = env_fault 3 unavailable"
  define w1 where "w1 = snd (AuthService_register env_ok duplicate_card_input campus)"
  define w2 where "w2 = snd (getUserByCardNumber env_ok ''C-001'' w1)"
  define v1 where "v1 = snd (AuthService_register F duplicate_card_input campus)"
  define v2 where "v2 = snd (getUserByCardNumber F ''C-001'' v1)"
  have h1: "AuthService_register env_ok duplicate_card_input campus = (Inr ''auth-new'', w1)"
    unfolding w1_def
    by (simp add: AuthService_register_def sdk_defs example_defs Let_def)
  have h2: "getUserByCardNumber env_ok (CreateUserData.cardNumber duplicate_card_input) w1
              = (Inr (Some student_Y), w2)"
    unfolding w2_def w1_def
    by (simp add: getUserByCardNumber_def AuthService_register_def sdk_defs helper_defs
          example_defs Let_def)
  have h3: "fault env_ok w2 = None"
    by (simp add: fault_def env_ok_def)
  have f1: "AuthService_register F duplicate_card_input campus = (Inr ''auth-new'', v1)"
    unfolding v1_def F_def
    by (simp add: AuthService_register_def sdk_defs example_defs Let_def)
  have f2: "getUserByCardNumber F (CreateUserData.cardNumber duplicate_card_input) v1
              = (Inr (Some student_Y), v2)"
    unfolding v2_def v1_def F_def
    by (simp add: getUserByCardNumber_def AuthService_register_def sdk_defs helper_defs
          example_defs Let_def)
  have f3: "fault F v2 \<noteq> None"
    unfolding v2_def v1_def F_def
    by (simp add: getUserByCardNumber_def AuthService_register_def sdk_defs helper_defs
          example_defs Let_def)
  show ?thesis
    using register_duplicate_card [OF h1 h2, of signed_out] h3
          register_duplicate_card [OF f1 f2, of signed_out] f3
    unfolding F_def by simp
qed

text \<open>
  Claim C1 as stated fails at the same registration. Without faults the credential is
  created (calls 0 and 1) before the card number is looked up (call 2), and a further
  call follows the detection (call 3). When call 3, the deletion, fails, the credential
  of the request exists afterwards.
\<close>

theorem register_duplicate_card_counterexample:
  "fst (register env_ok duplicate_card_input signed_out campus)
     = Inl (Error ''Card number already exists'' None)
   \<and> calls (snd (snd (register env_ok duplicate_card_input signed_out campus)))
     = [CreateUserWithEmailAndPassword ''a@u.edu'', UpdateProfile ''auth-new'',
        GetDocs (CardNumberEq ''C-001''), DeleteUser ''auth-new'']
   \<and> ''a@u.edu'' \<in> acc_email ` set (accounts (snd (snd
        (register (env_fault 3 unavailable) duplicate_card_input signed_out campus))))"
  by (simp add: register_def rollback_def AuthService_register_def AuthService_logout_def
        handleAuthError_def createUser_def createUser_try_def getUserByCardNumber_def
        sdk_defs helper_defs example_defs Let_def)

text \<open>
  Claim C2. For every registration whose credential was created and whose \<^verbatim>\<open>createUser\<close>
  then failed with \<open>err\<close>, the caller gets exactly \<open>err\<close>, whatever the compensation does.
  The compensation runs: the deletion of the credential is issued; when it succeeds the
  credential is gone; when it fails a sign-out is issued, which ends the session unless
  it fails too. The directory is left as the failed write left it.
\<close>

theorem register_rollback:
  assumes "AuthService_register E userData w = (Inr fu, w1)"
      and "createUser E fu userData w1 = (Inl err, w2)"
  shows "register E userData s w =
           (Inl err,
            s\<lparr>AuthContextState.error := Some (or_default (message err) ''Failed to register''),
              AuthContextState.loading := False\<rparr>,
            rollback E fu w2)
       \<and> users (rollback E fu w2) = users w2
       \<and> (fault E w2 = None \<longrightarrow>
            calls (rollback E fu w2) = calls w2 @ [DeleteUser fu]
            \<and> fu \<notin> acc_uid ` set (accounts (rollback E fu w2)))
       \<and> (fault E w2 \<noteq> None \<longrightarrow>
            calls (rollback E fu w2) = calls w2 @ [DeleteUser fu, SignOut]
            \<and> (faults E (Suc (length (calls w2))) = None \<longrightarrow>
                 currentUser (rollback E fu w2) = None))"
proof -
  have "register E userData s w =
           (Inl err,
            s\<lparr>AuthContextState.error := Some (or_default (message err) ''Failed to register''),
              AuthContextState.loading := False\<rparr>,
            rollback E fu w2)"
    using assms by (simp add: register_def Let_def)
  moreover have "fault E w2 \<noteq> None \<longrightarrow>
            calls (rollback E fu w2) = calls w2 @ [DeleteUser fu, SignOut]
            \<and> (faults E (Suc (length (calls w2))) = None \<longrightarrow>
                 currentUser (rollback E fu w2) = None)"
    using rollback_signed_out by blast
  ultimately show ?thesis
    using rollback_users rollback_deleted by blast
qed

text \<open>
  The theorem at a registration whose directory write (call 3) fails: the caller sees the
  error of \<^verbatim>\<open>createUser\<close>; the new credential is gone when the deletion succeeds, and the
  session is ended when the deletion (call 4) fails too.
\<close>

theorem register_rollback_witness:
  "fst (register (env_fault 3 unavailable) new_staff_input signed_out campus)
     = Inl (Error ''Failed to create user profile'' None)
   \<and> ''auth-new'' \<notin> acc_uid ` set (accounts (snd (snd
        (register (env_fault 3 unavailable) new_staff_input signed_out campus))))
   \<and> fst (register (env_ok\<lparr>faults := (\<lambda>i. if 3 \<le> i \<and> i \<le> 4 then Some unavailable else None)\<rparr>)
             new_staff_input signed_out campus)
     = Inl (Error ''Failed to create user profile'' None)
   \<and> currentUser (snd (snd
        (register (env_ok\<lparr>faults := (\<lambda>i. if 3 \<le> i \<and> i \<le> 4 then Some unavailable else None)\<rparr>)
           new_staff_input signed_out campus))) = None"
proof -
  define E where "E = env_fault 3 unavailable"
  define F where
    "F = env_ok\<lparr>faults := (\<lambda>i. if 3 \<le> i \<and> i \<le> 4 then Some unavailable else None)\<rparr>"
  define w1 where "w1 = snd (AuthService_register E new_staff_input campus)"
  define w2 where "w2 = snd (createUser E ''auth-new'' new_staff_input w1)"
  define v1 where "v1 = snd (AuthService_register F new_staff_input campus)"
  define v2 where "v2 = snd (createUser F ''auth-new'' new_staff_input v1)"
  have e1: "AuthService_register E new_staff_input campus = (Inr ''auth-new'', w1)"
    unfolding w1_def E_def
    by (simp add: AuthService_register_def sdk_defs example_defs Let_def)
  have e2: "createUser E ''auth-new'' new_staff_input w1
              = (Inl (Error ''Failed to create user profile'' None), w2)"
    unfolding w2_def w1_def E_def
    by (simp add: createUser_def createUser_try_def getUserByCardNumber_def
          AuthService_register_def sdk_defs helper_defs example_defs Let_def)
  have e3: "fault E w2 = None"
    unfolding w2_def w1_def E_def
    by (simp add: createUser_def createUser_try_def getUserByCardNumber_def
          AuthService_register_def sdk_defs helper_defs example_defs Let_def)
  have f1: "AuthService_register F new_staff_input campus = (Inr ''auth-new'', v1)"
    unfolding v1_def F_def
    by (simp add: AuthService_register_def sdk_defs example_defs Let_def)
  have f2: "createUser F ''auth-new'' new_staff_input v1
              = (Inl (Error ''Failed to create user profile'' None), v2)"
    unfolding v2_def v1_def F_def
    by (simp add: createUser_def createUser_try_def getUserByCardNumber_def
          AuthService_register_def sdk_defs helper_defs example_defs Let_def)
  have f3: "fault F v2 \<noteq> None \<and> faults F (Suc (length (calls v2))) = None"
    unfolding v2_def v1_def F_def
    by (simp add: createUser_def createUser_try_def getUserByCardNumber_def
          AuthService_register_def sdk_defs helper_defs example_defs Let_def)
  show ?thesis
    using register_rollback [OF e1 e2, of signed_out] e3
          register_rollback [OF f1 f2, of signed_out] f3
    unfolding E_def F_def by simp
qed

section \<open>Login\<close>




section \<open>Approval by staff\<close>

lemma getUserByUid_cases:
  "getUserByUid E k w =
     (case fault E w of
        Some e \<Rightarrow> (Inl (Error ''Failed to fetch user data'' None), issue (GetDoc k) w)
      | None \<Rightarrow> (Inr (find (\<lambda>u. uid u = k) (users w)), issue (GetDoc k) w))"
  by (simp add: getUserByUid_def getDoc_def split: option.splits)

lemma getUserByUid_world:
  "getUserByUid E k w = (r, w') \<Longrightarrow> w' = issue (GetDoc k) w"
  by (auto simp: getUserByUid_cases split: option.splits)

lemma getUserByUid_Some:
  "getUserByUid E k w = (Inr (Some t), w') \<Longrightarrow>
     find (\<lambda>u. uid u = k) (users w) = Some t \<and> fault E w = None"
  by (auto simp: getUserByUid_cases split: option.splits)

lemma approveUser_cases:
  "approveUser E u w =
     (if write_fails E w (length (calls w), u)
      then (Inl (Error ''Failed to approve user'' None), issue (UpdateDoc u) w)
      else (Inr (),
            issue (UpdateDoc u)
              (w\<lparr>users :=
                   map (\<lambda>x. if uid x = u then x\<lparr>isApproved := True, updatedAt := tick E w\<rparr>
                            else x)
                     (users w)\<rparr>)))"
  by (simp add: approveUser_def updateUser_def updateDoc_def write_fails_def fault_def
           split: option.splits cong: if_cong)

lemma approveStudent_failure_unchanged:
  "isl (fst (approveStudent E staffUser studentUid w)) \<Longrightarrow>
     users (snd (approveStudent E staffUser studentUid w)) = users w"
  by (auto simp: approveStudent_def approveStudent_try_def getUserByUid_cases approveUser_cases
        issue_def split: option.splits if_splits)

text \<open>
  Claim C4, as amended. For every staff actor: when the actor lacks \<open>canApproveStudents\<close>,
  \<^verbatim>\<open>approveStudent\<close> fails with the permission error before anything is looked up; when
  the lookup of the target is answered and the target is not a student, or is a student
  of another department, it fails with the permission error of that check; when the lookup
  call itself fails, it fails with the error of the lookup, \<^verbatim>\<open>Failed to fetch user data\<close>,
  whatever the target is. Whenever it fails, the directory, so the target's \<open>isApproved\<close>,
  is unchanged. It succeeds only when the actor has \<open>canApproveStudents = true\<close> and the
  target is a student of the actor's department; then, when neither the lookup nor the
  write fails, it does succeed and the target is approved.
\<close>

theorem approveStudent_scope:
  assumes "role staffUser = Staff"
  shows "(canApproveStudents staffUser \<noteq> Some True \<longrightarrow>
            approveStudent E staffUser studentUid w
              = (Inl (Error ''You do not have permission to approve students'' None), w))
       \<and> (canApproveStudents staffUser = Some True \<and> fault E w \<noteq> None \<longrightarrow>
            approveStudent E staffUser studentUid w
              = (Inl (Error ''Failed to fetch user data'' None), issue (GetDoc studentUid) w))
       \<and> (\<forall>target.
            canApproveStudents staffUser = Some True \<and> fault E w = None
            \<and> find (\<lambda>u. uid u = studentUid) (users w) = Some target \<longrightarrow>
              (role target \<noteq> Student \<longrightarrow>
                 approveStudent E staffUser studentUid w
                   = (Inl (Error ''Can only approve students'' None),
                      issue (GetDoc studentUid) w))
            \<and> (role target = Student \<and> department target \<noteq> department staffUser \<longrightarrow>
                 approveStudent E staffUser studentUid w
                   = (Inl (Error ''Can only approve students in your department'' None),
                      issue (GetDoc studentUid) w))
            \<and> (role target = Student \<and> department target = department staffUser
                 \<and> fault E (issue (GetDoc studentUid) w) = None \<longrightarrow>
                 fst (approveStudent E staffUser studentUid w) = Inr ()
                 \<and> approved_in (snd (approveStudent E staffUser studentUid w)) studentUid))
       \<and> (isl (fst (approveStudent E staffUser studentUid w)) \<longrightarrow>
            users (snd (approveStudent E staffUser studentUid w)) = users w)
       \<and> (fst (approveStudent E staffUser studentUid w) = Inr () \<longrightarrow>
            canApproveStudents staffUser = Some True
            \<and> (\<exists>target. find (\<lambda>u. uid u = studentUid) (users w) = Some target
                  \<and> role target = Student \<and> department target = department staffUser))"
proof -
  have lacking: "canApproveStudents staffUser \<noteq> Some True \<longrightarrow>
            approveStudent E staffUser studentUid w
              = (Inl (Error ''You do not have permission to approve students'' None), w)"
    using assms
    by (simp add: approveStudent_def approveStudent_try_def is_true_def or_default_def)
  have unanswered: "canApproveStudents staffUser = Some True \<and> fault E w \<noteq> None \<longrightarrow>
            approveStudent E staffUser studentUid w
              = (Inl (Error ''Failed to fetch user data'' None), issue (GetDoc studentUid) w)"
    using assms
    by (auto simp: approveStudent_def approveStudent_try_def is_true_def or_default_def
          getUserByUid_cases)
  have resolved: "canApproveStudents staffUser = Some True \<and> fault E w = None
            \<and> find (\<lambda>u. uid u = studentUid) (users w) = Some target \<longrightarrow>
              (role target \<noteq> Student \<longrightarrow>
                 approveStudent E staffUser studentUid w
                   = (Inl (Error ''Can only approve students'' None),
                      issue (GetDoc studentUid) w))
            \<and> (role target = Student \<and> department target \<noteq> department staffUser \<longrightarrow>
                 approveStudent E staffUser studentUid w
                   = (Inl (Error ''Can only approve students in your department'' None),
                      issue (GetDoc studentUid) w))
            \<and> (role target = Student \<and> department target = department staffUser
                 \<and> fault E (issue (GetDoc studentUid) w) = None \<longrightarrow>
                 fst (approveStudent E staffUser studentUid w) = Inr ()
                 \<and> approved_in (snd (approveStudent E staffUser studentUid w)) studentUid)"
    for target
  proof (intro impI, elim conjE)
    assume can: "canApproveStudents staffUser = Some True"
       and ok: "fault E w = None"
       and dir: "find (\<lambda>u. uid u = studentUid) (users w) = Some target"
    have found: "studentUid \<in> uid ` set (users w)"
      using dir by (auto simp: find_Some_iff image_iff)
    show "(role target \<noteq> Student \<longrightarrow>
                 approveStudent E staffUser studentUid w
                   = (Inl (Error ''Can only approve students'' None),
                      issue (GetDoc studentUid) w))
            \<and> (role target = Student \<and> department target \<noteq> department staffUser \<longrightarrow>
                 approveStudent E staffUser studentUid w
                   = (Inl (Error ''Can only approve students in your department'' None),
                      issue (GetDoc studentUid) w))
            \<and> (role target = Student \<and> department target = department staffUser
                 \<and> fault E (issue (GetDoc studentUid) w) = None \<longrightarrow>
                 fst (approveStudent E staffUser studentUid w) = Inr ()
                 \<and> approved_in (snd (approveStudent E staffUser studentUid w)) studentUid)"
      using assms can ok dir found
      by (auto simp: approveStudent_def approveStudent_try_def is_true_def or_default_def
            getUserByUid_cases approveUser_def updateUser_def updateDoc_def issue_def
            approved_in_def split: option.splits if_splits)
  qed
  have only: "fst (approveStudent E staffUser studentUid w) = Inr () \<longrightarrow>
            canApproveStudents staffUser = Some True
            \<and> (\<exists>target. find (\<lambda>u. uid u = studentUid) (users w) = Some target
                  \<and> role target = Student \<and> department target = department staffUser)"
    by (auto simp: approveStudent_def approveStudent_try_def is_true_def getUserByUid_cases
          split: option.splits if_splits prod.splits sum.splits)
  show ?thesis
    using lacking unanswered resolved only
          approveStudent_failure_unchanged [of E staffUser studentUid w]
    by blast
qed

text \<open>
  The theorem at staff X of department CS: approving student Y of department EE fails
  and leaves the directory as it was; approving student Z of department CS succeeds;
  without \<open>canApproveStudents\<close> X is refused at once; and when the lookup call fails, the
  approval of Y fails with the error of the lookup and the directory is as it was.
\<close>

theorem approveStudent_scope_witness:
  "approveStudent env_ok staff_X ''y'' campus
     = (Inl (Error ''Can only approve students in your department'' None),
        issue (GetDoc ''y'') campus)
   \<and> users (snd (approveStudent env_ok staff_X ''y'' campus)) = users campus
   \<and> fst (approveStudent env_ok staff_X ''z'' campus) = Inr ()
   \<and> approved_in (snd (approveStudent env_ok staff_X ''z'' campus)) ''z''
   \<and> approveStudent env_ok (staff_X\<lparr>canApproveStudents := None\<rparr>) ''z'' campus
     = (Inl (Error ''You do not have permission to approve students'' None), campus)
   \<and> approveStudent (env_fault 0 unavailable) staff_X ''y'' campus
     = (Inl (Error ''Failed to fetch user data'' None), issue (GetDoc ''y'') campus)
   \<and> users (snd (approveStudent (env_fault 0 unavailable) staff_X ''y'' campus)) = users campus"
proof -
  have s: "role staff_X = Staff" "canApproveStudents staff_X = Some True"
          "department staff_X = ''CS''"
    by (simp_all add: staff_X_def)
  have s': "role (staff_X\<lparr>canApproveStudents := None\<rparr>) = Staff"
    by (simp add: staff_X_def)
  have ok: "fault env_ok campus = None"
    by (simp add: fault_def env_ok_def)
  have y: "find (\<lambda>u. uid u = ''y'') (users campus) = Some student_Y"
    by (simp add: example_defs)
  have z: "find (\<lambda>u. uid u = ''z'') (users campus) = Some student_Z"
    by (simp add: example_defs)
  have t: "role student_Y = Student" "department student_Y = ''EE''"
          "role student_Z = Student" "department student_Z = ''CS''"
    by (simp_all add: student_Y_def student_Z_def)
  have f: "fault env_ok (issue (GetDoc ''z'') campus) = None"
    by (simp add: fault_def env_ok_def)
  have q: "fault (env_fault 0 unavailable) campus \<noteq> None"
    by (simp add: fault_def env_fault_def campus_def)
  have a: "approveStudent env_ok staff_X ''y'' campus
     = (Inl (Error ''Can only approve students in your department'' None),
        issue (GetDoc ''y'') campus)"
    using approveStudent_scope [OF s(1), of env_ok "''y''" campus] ok y s t by simp
  have a': "users (snd (approveStudent env_ok staff_X ''y'' campus)) = users campus"
    using approveStudent_scope [OF s(1), of env_ok "''y''" campus] a by simp
  have b: "fst (approveStudent env_ok staff_X ''z'' campus) = Inr ()
   \<and> approved_in (snd (approveStudent env_ok staff_X ''z'' campus)) ''z''"
    using approveStudent_scope [OF s(1), of env_ok "''z''" campus] ok z s t f by simp
  have c: "approveStudent env_ok (staff_X\<lparr>canApproveStudents := None\<rparr>) ''z'' campus
     = (Inl (Error ''You do not have permission to approve students'' None), campus)"
    using approveStudent_scope [OF s', of env_ok "''z''" campus] by simp
  have d: "approveStudent (env_fault 0 unavailable) staff_X ''y'' campus
     = (Inl (Error ''Failed to fetch user data'' None), issue (GetDoc ''y'') campus)"
    using approveStudent_scope [OF s(1), of "env_fault 0 unavailable" "''y''" campus] q s
    by simp
  have d': "users (snd (approveStudent (env_fault 0 unavailable) staff_X ''y'' campus))
              = users campus"
    using approveStudent_scope [OF s(1), of "env_fault 0 unavailable" "''y''" campus] d
    by simp
  show ?thesis
    using a a' b c d d' by simp
qed

text \<open>
  Claim C4 as stated fails when the lookup call fails: staff X attempts to approve the
  administrator, a target that is not a student, and the error is not the permission
  error of that check but the error of the lookup.
\<close>

theorem approveStudent_scope_counterexample:
  "role staff_X = Staff
   \<and> find (\<lambda>u. uid u = ''adm'') (users campus) = Some user_admin
   \<and> role user_admin = Admin
   \<and> fst (approveStudent (env_fault 0 unavailable) staff_X ''adm'' campus)
     = Inl (Error ''Failed to fetch user data'' None)"
  by (simp add: approveStudent_def approveStudent_try_def getUserByUid_cases
        sdk_defs helper_defs example_defs)

section \<open>Bulk approval\<close>

lemma approveUser_step:
  assumes "approveUser E u w = (res, w1)"
  shows "length (calls w1) = Suc (length (calls w))"
    and "write_fails E w1 = write_fails E w"
    and "isl res \<longleftrightarrow> write_fails E w (length (calls w), u)"
    and "approved_in w v \<Longrightarrow> approved_in w1 v"
    and "\<not> write_fails E w (length (calls w), u) \<Longrightarrow> approved_in w1 u"
proof -
  show "length (calls w1) = Suc (length (calls w))"
    using assms by (auto simp: approveUser_cases issue_def split: if_splits)
  have "map uid (users w1) = map uid (users w)"
    using assms by (auto simp: approveUser_cases issue_def comp_def split: if_splits)
  then have "uid ` set (users w1) = uid ` set (users w)"
    by (simp only: set_map [symmetric])
  then show "write_fails E w1 = write_fails E w"
    by (simp add: write_fails_def)
  show "isl res \<longleftrightarrow> write_fails E w (length (calls w), u)"
    using assms by (auto simp: approveUser_cases split: if_splits)
  have dir: "users w1 =
               (if write_fails E w (length (calls w), u) then users w
                else map (\<lambda>x. if uid x = u then x\<lparr>isApproved := True, updatedAt := tick E w\<rparr>
                              else x)
                       (users w))"
    using assms by (auto simp: approveUser_cases issue_def split: if_splits)
  show "approved_in w v \<Longrightarrow> approved_in w1 v"
    unfolding approved_in_def dir by (simp del: if_image_distrib)
  show "\<not> write_fails E w (length (calls w), u) \<Longrightarrow> approved_in w1 u"
    unfolding approved_in_def dir by (simp del: if_image_distrib)
qed

lemma approveBulk_tasks_keeps:
  "approveBulk_tasks E uids r w = (r', w') \<Longrightarrow> approved_in w v \<Longrightarrow> approved_in w' v"
proof (induction uids arbitrary: r w)
  case Nil
  then show ?case by simp
next
  case (Cons u us)
  obtain res w1 where step: "approveUser E u w = (res, w1)"
    by (cases "approveUser E u w")
  have "approved_in w1 v"
    using approveUser_step(4) [OF step] Cons.prems(2) by simp
  with Cons.IH Cons.prems(1) step show ?case
    by (cases res) auto
qed

lemma approveBulk_tasks_count:
  "approveBulk_tasks E uids r w = (r', w') \<Longrightarrow>
     failed r' = failed r
                 + length (filter (write_fails E w) (enumerate (length (calls w)) uids))
   \<and> success r' + failed r' = success r + failed r + length uids
   \<and> (\<forall>p \<in> set (enumerate (length (calls w)) uids).
         \<not> write_fails E w p \<longrightarrow> approved_in w' (snd p))"
proof (induction uids arbitrary: r w)
  case Nil
  then show ?case by simp
next
  case (Cons u us)
  obtain res w1 where step: "approveUser E u w = (res, w1)"
    by (cases "approveUser E u w")
  note s = approveUser_step [OF step]
  show ?case
  proof (cases "write_fails E w (length (calls w), u)")
    case True
    then obtain e where res: "res = Inl e" using s(3) by (cases res) auto
    from Cons.prems step res
    have "approveBulk_tasks E us (r\<lparr>failed := failed r + 1\<rparr>) w1 = (r', w')" by simp
    from Cons.IH [OF this] True s(1,2) show ?thesis
      by simp
  next
    case False
    then obtain x where res: "res = Inr x" using s(3) by (cases res) auto
    from Cons.prems step res
    have rest: "approveBulk_tasks E us (r\<lparr>success := success r + 1\<rparr>) w1 = (r', w')" by simp
    have "approved_in w' u"
      using approveBulk_tasks_keeps [OF rest] s(5) False by simp
    with Cons.IH [OF rest] False s(1,2) show ?thesis
      by simp
  qed
qed

lemma approveStudentsBulk_tasks_keeps:
  "approveStudentsBulk_tasks E D uids r w = (r', w') \<Longrightarrow> approved_in w v \<Longrightarrow> approved_in w' v"
proof (induction uids arbitrary: r w)
  case Nil
  then show ?case by simp
next
  case (Cons u us)
  show ?case
  proof (cases "u \<in> set D")
    case False
    with Cons.IH Cons.prems show ?thesis by simp
  next
    case True
    obtain res w1 where step: "approveUser E u w = (res, w1)"
      by (cases "approveUser E u w")
    have "approved_in w1 v"
      using approveUser_step(4) [OF step] Cons.prems(2) by simp
    with Cons.IH Cons.prems(1) step True show ?thesis
      by (cases res) auto
  qed
qed

lemma approveStudentsBulk_tasks_count:
  "approveStudentsBulk_tasks E D uids r w = (r', w') \<Longrightarrow>
     failed r' = failed r + length (filter (\<lambda>u. u \<notin> set D) uids)
                 + length (filter (write_fails E w)
                     (enumerate (length (calls w)) (filter (\<lambda>u. u \<in> set D) uids)))
   \<and> success r' + failed r' = success r + failed r + length uids
   \<and> (\<forall>p \<in> set (enumerate (length (calls w)) (filter (\<lambda>u. u \<in> set D) uids)).
         \<not> write_fails E w p \<longrightarrow> approved_in w' (snd p))"
proof (induction uids arbitrary: r w)
  case Nil
  then show ?case by simp
next
  case (Cons u us)
  show ?case
  proof (cases "u \<in> set D")
    case outside: False
    from Cons.prems outside
    have "approveStudentsBulk_tasks E D us (r\<lparr>failed := failed r + 1\<rparr>) w = (r', w')" by simp
    from Cons.IH [OF this] outside show ?thesis by simp
  next
    case inside: True
    obtain res w1 where step: "approveUser E u w = (res, w1)"
      by (cases "approveUser E u w")
    note s = approveUser_step [OF step]
    show ?thesis
    proof (cases "write_fails E w (length (calls w), u)")
      case True
      then obtain e where res: "res = Inl e" using s(3) by (cases res) auto
      from Cons.prems step res inside
      have "approveStudentsBulk_tasks E D us (r\<lparr>failed := failed r + 1\<rparr>) w1 = (r', w')"
        by simp
      from Cons.IH [OF this] True inside s(1,2) show ?thesis
        by simp
    next
      case False
      then obtain x where res: "res = Inr x" using s(3) by (cases res) auto
      from Cons.prems step res inside
      have rest: "approveStudentsBulk_tasks E D us (r\<lparr>success := success r + 1\<rparr>) w1 = (r', w')"
        by simp
      have "approved_in w' u"
        using approveStudentsBulk_tasks_keeps [OF rest] s(5) False by simp
      with Cons.IH [OF rest] False inside s(1,2) show ?thesis
        by simp
    qed
  qed
qed

lemma BulkResult_eqI:
  "success r + failed r = n \<Longrightarrow> failed r = k \<Longrightarrow> r = \<lparr>success = n - k, failed = k\<rparr>"
  by (cases r) auto

lemma approveBulk_result:
  "fst (approveBulk E uids w)
     = Inr \<lparr>success = length uids - failed_writes E w uids, failed = failed_writes E w uids\<rparr>
   \<and> (\<forall>p \<in> set (enumerate (length (calls w)) uids).
         \<not> write_fails E w p \<longrightarrow> approved_in (snd (approveBulk E uids w)) (snd p))"
proof -
  obtain r' w' where run: "approveBulk_tasks E uids \<lparr>success = 0, failed = 0\<rparr> w = (r', w')"
    by (cases "approveBulk_tasks E uids \<lparr>success = 0, failed = 0\<rparr> w")
  note c = approveBulk_tasks_count [OF run]
  have "r' = \<lparr>success = length uids - failed_writes E w uids, failed = failed_writes E w uids\<rparr>"
    using c by (intro BulkResult_eqI) (simp_all add: failed_writes_def)
  then show ?thesis
    using c run by (simp add: approveBulk_def)
qed

lemma approveStudentsBulk_result:
  fixes uids :: "string list"
  assumes "is_true (canApproveStudents staffUser)" and "fault E w = None"
  defines "w1 \<equiv> issue (GetDocs (RoleEq Student)) w"
  defines "inside \<equiv> filter (\<lambda>u. u \<in> set (department_student_ids staffUser w)) uids"
  defines "outside \<equiv> filter (\<lambda>u. u \<notin> set (department_student_ids staffUser w)) uids"
  shows "fst (approveStudentsBulk E staffUser uids w)
           = Inr \<lparr>success = length uids - (length outside + failed_writes E w1 inside),
                  failed = length outside + failed_writes E w1 inside\<rparr>
       \<and> (\<forall>p \<in> set (enumerate (length (calls w1)) inside).
             \<not> write_fails E w1 p \<longrightarrow>
             approved_in (snd (approveStudentsBulk E staffUser uids w)) (snd p))"
proof -
  define D where
    "D = map uid (filter (\<lambda>s. department s = department staffUser)
           (rev (sort_key createdAt (filter (matches (RoleEq Student)) (users w)))))"
  have D: "set D = set (department_student_ids staffUser w)"
    by (auto simp: D_def department_student_ids_def)
  have query: "getUsersByRole E Student w
                 = (Inr (rev (sort_key createdAt (filter (matches (RoleEq Student)) (users w)))),
                    w1)"
    using assms(2) by (simp add: getUsersByRole_def getDocs_def w1_def)
  obtain r' w' where
    run: "approveStudentsBulk_tasks E D uids \<lparr>success = 0, failed = 0\<rparr> w1 = (r', w')"
    by (cases "approveStudentsBulk_tasks E D uids \<lparr>success = 0, failed = 0\<rparr> w1")
  note c = approveStudentsBulk_tasks_count [OF run]
  have "r' = \<lparr>success = length uids - (length outside + failed_writes E w1 inside),
              failed = length outside + failed_writes E w1 inside\<rparr>"
    using c by (intro BulkResult_eqI) (simp_all add: failed_writes_def inside_def outside_def D)
  moreover have "approveStudentsBulk E staffUser uids w = (Inr r', w')"
    using assms(1) query run by (simp add: approveStudentsBulk_def D_def Let_def)
  ultimately show ?thesis
    using c by (simp add: inside_def D)
qed

text \<open>
  Claim C5, as amended. \<^verbatim>\<open>AdminService.approveBulk\<close> over \<open>N\<close> ids of which \<open>K\<close> writes fail
  always returns \<open>{success: N - K, failed: K}\<close>, and every id whose write does not fail is
  approved afterwards, whatever happens to the others. \<^verbatim>\<open>StaffService.approveStudentsBulk\<close>
  does the same, counting the ids outside the actor's department among the \<open>K\<close>, once its
  two upfront steps have passed: the actor holds \<open>canApproveStudents\<close> and the student
  query is answered. An actor without \<open>canApproveStudents\<close> gets the permission error for
  the whole batch, and nothing is written. When the student query fails, the whole batch
  of a permitted actor is aborted with \<^verbatim>\<open>Failed to fetch users\<close>: no aggregate is returned
  and nothing is written.
\<close>

theorem bulk_approval_counts:
  fixes uids :: "string list"
  shows "fst (approveBulk E uids w)
           = Inr \<lparr>success = length uids - failed_writes E w uids, failed = failed_writes E w uids\<rparr>
       \<and> (\<forall>p \<in> set (enumerate (length (calls w)) uids).
             \<not> write_fails E w p \<longrightarrow> approved_in (snd (approveBulk E uids w)) (snd p))
       \<and> (\<not> is_true (canApproveStudents staffUser) \<longrightarrow>
             approveStudentsBulk E staffUser uids w
               = (Inl (Error ''You do not have permission to approve students'' None), w))
       \<and> (is_true (canApproveStudents staffUser) \<and> fault E w \<noteq> None \<longrightarrow>
             approveStudentsBulk E staffUser uids w
               = (Inl (Error ''Failed to fetch users'' None),
                  issue (GetDocs (RoleEq Student)) w))
       \<and> (is_true (canApproveStudents staffUser) \<and> fault E w = None \<longrightarrow>
             fst (approveStudentsBulk E staffUser uids w)
               = Inr \<lparr>success = length uids - department_failures E staffUser w uids,
                      failed = department_failures E staffUser w uids\<rparr>
             \<and> (\<forall>p \<in> set (enumerate (Suc (length (calls w)))
                            (filter (\<lambda>u. u \<in> set (department_student_ids staffUser w)) uids)).
                   \<not> write_fails E (issue (GetDocs (RoleEq Student)) w) p \<longrightarrow>
                   approved_in (snd (approveStudentsBulk E staffUser uids w)) (snd p)))"
proof -
  have abort: "\<not> is_true (canApproveStudents staffUser) \<longrightarrow>
             approveStudentsBulk E staffUser uids w
               = (Inl (Error ''You do not have permission to approve students'' None), w)"
    by (simp add: approveStudentsBulk_def or_default_def)
  have query: "is_true (canApproveStudents staffUser) \<and> fault E w \<noteq> None \<longrightarrow>
             approveStudentsBulk E staffUser uids w
               = (Inl (Error ''Failed to fetch users'' None),
                  issue (GetDocs (RoleEq Student)) w)"
    by (auto simp: approveStudentsBulk_def getUsersByRole_def getDocs_def or_default_def)
  have scoped: "is_true (canApproveStudents staffUser) \<and> fault E w = None \<longrightarrow>
             fst (approveStudentsBulk E staffUser uids w)
               = Inr \<lparr>success = length uids - department_failures E staffUser w uids,
                      failed = department_failures E staffUser w uids\<rparr>
             \<and> (\<forall>p \<in> set (enumerate (Suc (length (calls w)))
                            (filter (\<lambda>u. u \<in> set (department_student_ids staffUser w)) uids)).
                   \<not> write_fails E (issue (GetDocs (RoleEq Student)) w) p \<longrightarrow>
                   approved_in (snd (approveStudentsBulk E staffUser uids w)) (snd p))"
    using approveStudentsBulk_result [of staffUser E w uids]
    by (simp add: department_failures_def issue_def)
  show ?thesis
    using approveBulk_result [of E uids w] abort query scoped by blast
qed

text \<open>
  The theorem at three batches. The administrator's batch Y, Z, X whose second write fails:
  two succeed, one fails, and Y is approved. Staff X's batch Z, Y, nobody without faults:
  Z is in the department and is approved, the other two count as failed. The same batch
  of staff X when the student query fails: the batch is aborted.
\<close>

theorem bulk_approval_counts_witness:
  "fst (approveBulk (env_fault 1 unavailable) [''y'', ''z'', ''x''] campus)
     = Inr \<lparr>success = 2, failed = 1\<rparr>
   \<and> approved_in (snd (approveBulk (env_fault 1 unavailable) [''y'', ''z'', ''x''] campus)) ''y''
   \<and> fst (approveStudentsBulk env_ok staff_X [''z'', ''y'', ''nobody''] campus)
     = Inr \<lparr>success = 1, failed = 2\<rparr>
   \<and> approved_in (snd (approveStudentsBulk env_ok staff_X [''z'', ''y'', ''nobody''] campus)) ''z''
   \<and> approveStudentsBulk (env_fault 0 unavailable) staff_X [''z'', ''y'', ''nobody''] campus
     = (Inl (Error ''Failed to fetch users'' None), issue (GetDocs (RoleEq Student)) campus)"
proof -
  have q: "fault (env_fault 0 unavailable) campus \<noteq> None"
    by (simp add: fault_def env_fault_def campus_def)
  have k: "failed_writes (env_fault 1 unavailable) campus [''y'', ''z'', ''x''] = 1"
    by (simp add: failed_writes_def write_fails_def example_defs)
  have y: "\<not> write_fails (env_fault 1 unavailable) campus (0, ''y'')"
    by (simp add: write_fails_def example_defs)
  have p: "is_true (canApproveStudents staff_X) \<and> fault env_ok campus = None"
    by (simp add: is_true_def fault_def example_defs)
  have d: "department_student_ids staff_X campus = [''z'']"
    by (simp add: department_student_ids_def example_defs)
  have f: "department_failures env_ok staff_X campus [''z'', ''y'', ''nobody''] = 2"
    unfolding department_failures_def d
    by (simp add: failed_writes_def write_fails_def issue_def example_defs)
  have z: "\<not> write_fails env_ok (issue (GetDocs (RoleEq Student)) campus) (1, ''z'')"
    by (simp add: write_fails_def issue_def example_defs)
  have c: "calls campus = []"
    by (simp add: campus_def)
  show ?thesis
    using bulk_approval_counts [of "env_fault 1 unavailable" "[''y'', ''z'', ''x'']" campus staff_X]
          bulk_approval_counts [of env_ok "[''z'', ''y'', ''nobody'']" campus staff_X]
          bulk_approval_counts [of "env_fault 0 unavailable" "[''z'', ''y'', ''nobody'']" campus
            staff_X]
          k y p q d f z c
    by simp
qed

text \<open>
  Claim C5 as stated fails when the student query of the department-scoped operation
  fails. Staff X, who holds \<open>canApproveStudents\<close>, submits the single id Z, a student of
  X's department whose own write would not fail: the operation returns no aggregate but
  the error of the query, and Z is not approved.
\<close>

theorem bulk_approval_counts_counterexample:
  "is_true (canApproveStudents staff_X)
   \<and> department_student_ids staff_X campus = [''z'']
   \<and> \<not> write_fails (env_fault 0 unavailable) (issue (GetDocs (RoleEq Student)) campus) (1, ''z'')
   \<and> approveStudentsBulk (env_fault 0 unavailable) staff_X [''z''] campus
     = (Inl (Error ''Failed to fetch users'' None), issue (GetDocs (RoleEq Student)) campus)
   \<and> \<not> approved_in (issue (GetDocs (RoleEq Student)) campus) ''z''"
  by (simp add: approveStudentsBulk_def getUsersByRole_def write_fails_def approved_in_def
        department_student_ids_def sdk_defs helper_defs example_defs)

section \<open>NFC assignment\<close>

lemma getUserByNfcId_world:
  "getUserByNfcId E n w = (Inr (Some h), w') \<Longrightarrow>
     w' = issue (GetDocs (NfcIdEq n)) w \<and> h \<in> set (users w) \<and> nfcId h = Some n"
  by (auto simp: getUserByNfcId_def getDocs_def
           split: if_splits option.splits dest: first_doc_filter)

text \<open>
  Claim C6, on the code as it is. When the lookup finds a holder of the NFC id other
  than the target, \<^verbatim>\<open>assignNfcId\<close> fails and the directory is unchanged, but the error it
  throws is the generic \<^verbatim>\<open>Failed to assign NFC ID\<close>: the error \<^verbatim>\<open>NFC ID already assigned to
  another user\<close> is thrown inside the \<^verbatim>\<open>try\<close> block and replaced by its \<^verbatim>\<open>catch\<close>, and
  \<^verbatim>\<open>AdminService.assignNfcCard\<close> passes the generic message on. When the holder is the
  target and the write does not fail, the assignment succeeds and the target holds the id.
\<close>

theorem assignNfcId_holder:
  assumes "getUserByNfcId E n w = (Inr (Some holder), w1)"
  shows "(uid holder \<noteq> target \<longrightarrow>
            assignNfcId E target n w = (Inl (Error ''Failed to assign NFC ID'' None), w1)
            \<and> assignNfcCard E target n w = (Inl (Error ''Failed to assign NFC ID'' None), w1)
            \<and> users w1 = users w)
       \<and> (uid holder = target \<and> fault E w1 = None \<longrightarrow>
            fst (assignNfcId E target n w) = Inr ()
            \<and> (\<forall>u \<in> set (users (snd (assignNfcId E target n w))).
                  uid u = target \<longrightarrow> nfcId u = Some n))"
proof -
  note hw = getUserByNfcId_world [OF assms]
  have "uid holder = target \<Longrightarrow> target \<in> uid ` set (users w1)"
    using hw by (auto simp: issue_def)
  then show ?thesis
    using assms hw
    by (auto simp: assignNfcId_def assignNfcId_try_def assignNfcCard_def or_default_def
          updateUser_def updateDoc_def issue_def split: option.splits if_splits)
qed

text \<open>
  The theorem at the NFC id N1, which student Y holds: assigning it to Z fails with the
  generic error from both services; assigning it to Y again succeeds.
\<close>

theorem assignNfcId_holder_witness:
  "assignNfcId env_ok ''z'' ''N1'' campus
     = (Inl (Error ''Failed to assign NFC ID'' None), issue (GetDocs (NfcIdEq ''N1'')) campus)
   \<and> assignNfcCard env_ok ''z'' ''N1'' campus
     = (Inl (Error ''Failed to assign NFC ID'' None), issue (GetDocs (NfcIdEq ''N1'')) campus)
   \<and> fst (assignNfcId env_ok ''y'' ''N1'' campus) = Inr ()"
proof -
  have h: "getUserByNfcId env_ok ''N1'' campus
             = (Inr (Some student_Y), issue (GetDocs (NfcIdEq ''N1'')) campus)"
    by (simp add: getUserByNfcId_def sdk_defs helper_defs example_defs)
  have z: "uid student_Y \<noteq> ''z''" and y: "uid student_Y = ''y''"
    by (simp_all add: student_Y_def)
  have f: "fault env_ok (issue (GetDocs (NfcIdEq ''N1'')) campus) = None"
    by (simp add: fault_def env_ok_def)
  show ?thesis
    using assignNfcId_holder [OF h, of "''z''"] assignNfcId_holder [OF h, of "''y''"] z y f
    by simp
qed

section \<open>The generic login error\<close>

lemma login_failure_generic:
  "login_failure_class E c w = Some k \<Longrightarrow>
     surfaced_message (AuthService_login E c w) = Some ''Invalid card number or password''"
  unfolding login_failure_class_def surfaced_message_def AuthService_login_def
    AuthService_login_try_def signInWithEmailAndPassword_def is_auth_category_def
  by (auto simp: auth_error_def startsWith_def
           split: prod.splits sum.splits option.splits if_splits)

text \<open>
  Claim C7. Any two failing attempts of \<^verbatim>\<open>AuthService.login\<close>, each of one of the three
  kinds (unknown card number, wrong secret, authentication-category error of the
  credential service), throw errors with one and the same message, the generic one.
\<close>

theorem login_failures_indistinguishable:
  assumes "login_failure_class E1 c1 w1 = Some k1"
      and "login_failure_class E2 c2 w2 = Some k2"
  shows "surfaced_message (AuthService_login E1 c1 w1) = Some ''Invalid card number or password''
       \<and> surfaced_message (AuthService_login E2 c2 w2)
           = surfaced_message (AuthService_login E1 c1 w1)"
  using login_failure_generic [OF assms(1)] login_failure_generic [OF assms(2)] by simp

text \<open>
  The theorem at one attempt of each kind: a card number that no record has, the card
  of Y with a wrong secret, and the card and secret of Y when the sign-in (call 1) ends
  with \<^verbatim>\<open>auth/too-many-requests\<close>.
\<close>

theorem login_failures_indistinguishable_witness:
  "surfaced_message (AuthService_login env_ok
      \<lparr>LoginCredentials.cardNumber = ''C-404'', password = ''pw-y''\<rparr> campus)
     = Some ''Invalid card number or password''
   \<and> surfaced_message (AuthService_login env_ok
      \<lparr>LoginCredentials.cardNumber = ''C-001'', password = ''guess''\<rparr> campus)
     = Some ''Invalid card number or password''
   \<and> surfaced_message (AuthService_login (env_fault 1 too_many_requests) login_Y campus)
     = Some ''Invalid card number or password''"
proof -
  have a: "login_failure_class env_ok
      \<lparr>LoginCredentials.cardNumber = ''C-404'', password = ''pw-y''\<rparr> campus
        = Some UnknownCardNumber"
    by (simp add: login_failure_class_def getUserByCardNumber_def sdk_defs helper_defs
          example_defs)
  have b: "login_failure_class env_ok
      \<lparr>LoginCredentials.cardNumber = ''C-001'', password = ''guess''\<rparr> campus
        = Some WrongSecret"
    by (simp add: login_failure_class_def getUserByCardNumber_def sdk_defs helper_defs
          example_defs)
  have c: "login_failure_class (env_fault 1 too_many_requests) login_Y campus
        = Some AuthCategoryError"
    by (simp add: login_failure_class_def is_auth_category_def getUserByCardNumber_def
          sdk_defs helper_defs example_defs)
  show ?thesis
    using login_failures_indistinguishable [OF a b] login_failures_indistinguishable [OF a c]
    by simp
qed

section \<open>The defaults of a new record\<close>

lemmas create_defs = createUser_def createUser_try_def getUserByCardNumber_def

text \<open>
  Claim C8, on the code as it is. For every successful \<^verbatim>\<open>createUser\<close>, the returned record
  and the record stored under its id have \<open>isActive = true\<close>, \<open>isApproved = true\<close> exactly
  for the role admin, and the requested card number. The stored record has
  \<open>canApproveStudents = false\<close> when the role is staff and no such field otherwise. The
  returned record never has the field \<open>canApproveStudents\<close>, also when the role is staff:
  the object that \<^verbatim>\<open>createUser\<close> returns is written out apart from the stored document
  and omits it.
\<close>

theorem createUser_defaults:
  assumes "createUser E a userData w = (Inr newUser, w')"
  shows "isActive newUser
       \<and> (isApproved newUser \<longleftrightarrow> CreateUserData.role userData = Admin)
       \<and> cardNumber newUser = CreateUserData.cardNumber userData
       \<and> canApproveStudents newUser = None
       \<and> (\<exists>stored. find (\<lambda>u. uid u = uid newUser) (users w') = Some stored
            \<and> isActive stored
            \<and> (isApproved stored \<longleftrightarrow> CreateUserData.role userData = Admin)
            \<and> cardNumber stored = CreateUserData.cardNumber userData
            \<and> canApproveStudents stored
                = (if CreateUserData.role userData = Staff then Some False else None))"
  using assms
  unfolding createUser_def createUser_try_def
  by (auto simp: Let_def split: prod.splits sum.splits option.splits if_splits
           dest!: setDoc_find)

text \<open>
  The theorem at the creation of a staff record with a new card number: the stored record
  has \<open>canApproveStudents = false\<close>, the returned one has no such field.
\<close>

theorem createUser_defaults_witness:
  "isActive (projr (fst (createUser env_ok ''auth-new'' new_staff_input campus)))
   \<and> \<not> isApproved (projr (fst (createUser env_ok ''auth-new'' new_staff_input campus)))
   \<and> cardNumber (projr (fst (createUser env_ok ''auth-new'' new_staff_input campus))) = ''S-002''
   \<and> canApproveStudents (projr (fst (createUser env_ok ''auth-new'' new_staff_input campus)))
      = None
   \<and> map_option canApproveStudents
        (find (\<lambda>u. uid u = ''doc-new'')
           (users (snd (createUser env_ok ''auth-new'' new_staff_input campus))))
      = Some (Some False)"
proof -
  define r where "r = projr (fst (createUser env_ok ''auth-new'' new_staff_input campus))"
  define w' where "w' = snd (createUser env_ok ''auth-new'' new_staff_input campus)"
  have h: "createUser env_ok ''auth-new'' new_staff_input campus = (Inr r, w')"
    unfolding r_def w'_def
    by (simp add: create_defs sdk_defs helper_defs example_defs Let_def)
  have u: "uid r = ''doc-new''"
    unfolding r_def
    by (simp add: create_defs sdk_defs helper_defs example_defs Let_def)
  have s: "CreateUserData.role new_staff_input = Staff"
          "CreateUserData.cardNumber new_staff_input = ''S-002''"
    by (simp_all add: new_staff_input_def)
  show ?thesis
    using createUser_defaults [OF h] u s
    unfolding r_def [symmetric] w'_def [symmetric]
    by auto
qed

section \<open>Resolution on the profile screen\<close>

lemmas load_defs = loadUser_def loadUser_try_def getUserByNfcId_def getUserByCardNumber_def
  DEFAULT_CARD_NUMBER_def

text \<open>
  Claim C9, as amended. \<^verbatim>\<open>loadUser\<close> issues exactly one query. With an NFC id presented
  it is the NFC-id query, whatever card number is presented. Without an NFC id and with a
  card number it is the query for that card number. With neither it is the query for the
  default card number \<^verbatim>\<open>Admin01\<close>. When the query is answered, the profile shown is its
  first match, or none when nothing matches. When the query call fails, nothing is
  resolved: the profile shown stays as it was and the error of the lookup is recorded.
\<close>

theorem loadUser_resolution:
  "(truthy routeNfcId \<longrightarrow>
      calls (snd (loadUser E routeNfcId routeCardNumber s w))
        = calls w @ [GetDocs (NfcIdEq (the routeNfcId))]
      \<and> (fault E w = None \<longrightarrow>
           ProfileScreenState.user (fst (loadUser E routeNfcId routeCardNumber s w))
             = first_doc (filter (matches (NfcIdEq (the routeNfcId))) (users w)))
      \<and> (fault E w \<noteq> None \<longrightarrow>
           ProfileScreenState.user (fst (loadUser E routeNfcId routeCardNumber s w))
             = ProfileScreenState.user s
           \<and> ProfileScreenState.error (fst (loadUser E routeNfcId routeCardNumber s w))
             = Some ''Failed to fetch user by NFC ID''))
   \<and> (\<not> truthy routeNfcId \<and> truthy routeCardNumber \<longrightarrow>
      calls (snd (loadUser E routeNfcId routeCardNumber s w))
        = calls w @ [GetDocs (CardNumberEq (the routeCardNumber))]
      \<and> (fault E w = None \<longrightarrow>
           ProfileScreenState.user (fst (loadUser E routeNfcId routeCardNumber s w))
             = first_doc (filter (matches (CardNumberEq (the routeCardNumber))) (users w)))
      \<and> (fault E w \<noteq> None \<longrightarrow>
           ProfileScreenState.user (fst (loadUser E routeNfcId routeCardNumber s w))
             = ProfileScreenState.user s
           \<and> ProfileScreenState.error (fst (loadUser E routeNfcId routeCardNumber s w))
             = Some ''Failed to fetch user by card number''))
   \<and> (\<not> truthy routeNfcId \<and> \<not> truthy routeCardNumber \<longrightarrow>
      calls (snd (loadUser E routeNfcId routeCardNumber s w))
        = calls w @ [GetDocs (CardNumberEq ''Admin01'')]
      \<and> (fault E w = None \<longrightarrow>
           ProfileScreenState.user (fst (loadUser E routeNfcId routeCardNumber s w))
             = first_doc (filter (matches (CardNumberEq ''Admin01'')) (users w)))
      \<and> (fault E w \<noteq> None \<longrightarrow>
           ProfileScreenState.user (fst (loadUser E routeNfcId routeCardNumber s w))
             = ProfileScreenState.user s
           \<and> ProfileScreenState.error (fst (loadUser E routeNfcId routeCardNumber s w))
             = Some ''Failed to fetch user by card number''))"
  by (auto simp: loadUser_def loadUser_try_def getUserByNfcId_def getUserByCardNumber_def
        getDocs_def issue_def truthy_def DEFAULT_CARD_NUMBER_def Let_def or_default_def
        split: option.splits)

text \<open>
  The theorem at four requests: the NFC id of Y with the card number of Z shows Y after
  the NFC-id query alone; the card number of Z alone shows Z; no parameter at all queries
  the default card number and shows the administrator who holds it; and no parameter at
  all when the query call fails shows nobody and records the error of the lookup.
\<close>

theorem loadUser_resolution_witness:
  "ProfileScreenState.user
     (fst (loadUser env_ok (Some ''N1'') (Some ''C-002'') blank_screen campus)) = Some student_Y
   \<and> calls (snd (loadUser env_ok (Some ''N1'') (Some ''C-002'') blank_screen campus))
     = [GetDocs (NfcIdEq ''N1'')]
   \<and> ProfileScreenState.user (fst (loadUser env_ok None (Some ''C-002'') blank_screen campus))
     = Some student_Z
   \<and> calls (snd (loadUser env_ok None None blank_screen campus))
     = [GetDocs (CardNumberEq ''Admin01'')]
   \<and> ProfileScreenState.user (fst (loadUser env_ok None None blank_screen campus))
     = Some user_admin
   \<and> calls (snd (loadUser (env_fault 0 unavailable) None None blank_screen campus))
     = [GetDocs (CardNumberEq ''Admin01'')]
   \<and> ProfileScreenState.user
        (fst (loadUser (env_fault 0 unavailable) None None blank_screen campus)) = None
   \<and> ProfileScreenState.error
        (fst (loadUser (env_fault 0 unavailable) None None blank_screen campus))
     = Some ''Failed to fetch user by card number''"
  using loadUser_resolution [of "Some ''N1''" env_ok "Some ''C-002''" blank_screen campus]
        loadUser_resolution [of None env_ok "Some ''C-002''" blank_screen campus]
        loadUser_resolution [of None env_ok None blank_screen campus]
        loadUser_resolution [of None "env_fault 0 unavailable" None blank_screen campus]
  by (simp add: truthy_def fault_def first_doc_def example_defs)

text \<open>
  Claim C9 as stated fails at the request with neither parameter: a record is looked up,
  by the default card number, and the administrator who holds it is shown.
\<close>

theorem loadUser_resolution_counterexample:
  "calls (snd (loadUser env_ok None None blank_screen campus))
     = [GetDocs (CardNumberEq ''Admin01'')]
   \<and> ProfileScreenState.user (fst (loadUser env_ok None None blank_screen campus))
     = Some user_admin"
  by (simp add: load_defs sdk_defs helper_defs example_defs Let_def)

section \<open>Approval rights of staff\<close>

lemma updateStaffApprovalPermission_users:
  "updateStaffApprovalPermission E k b w = (r, w') \<Longrightarrow>
     (isl r \<and> users w' = users w)
     \<or> (r = Inr ()
        \<and> users w' = map (\<lambda>x. if uid x = k
                               then x\<lparr>canApproveStudents := Some b, updatedAt := tick E w\<rparr>
                               else x)
                       (users w))"
  by (auto simp: updateStaffApprovalPermission_def updateUser_def updateDoc_def issue_def
           split: option.splits if_splits cong: if_cong)

lemma grantApprovalRights_guard:
  "(map_option role (find (\<lambda>u. uid u = staffUid) (users w)) \<noteq> Some Staff \<longrightarrow>
      isl (fst (grantApprovalRights E staffUid w))
      \<and> users (snd (grantApprovalRights E staffUid w)) = users w)
   \<and> (users (snd (grantApprovalRights E staffUid w)) = users w
      \<or> (\<exists>u. find (\<lambda>u. uid u = staffUid) (users w) = Some u \<and> role u = Staff
            \<and> users (snd (grantApprovalRights E staffUid w))
                = map (\<lambda>x. if uid x = staffUid
                           then x\<lparr>canApproveStudents := Some True,
                                  updatedAt := tick E (issue (GetDoc staffUid) w)\<rparr>
                           else x) (users w)))"
proof (cases "getUserByUid E staffUid w")
  case (Pair res w1)
  then have w1: "w1 = issue (GetDoc staffUid) w" and u1: "users w1 = users w"
    by (auto simp: getUserByUid_cases issue_def split: option.splits)
  obtain r2 w2 where upd: "updateStaffApprovalPermission E staffUid True w1 = (r2, w2)"
    by (cases "updateStaffApprovalPermission E staffUid True w1")
  from updateStaffApprovalPermission_users [OF upd] Pair w1 u1 upd show ?thesis
    by (auto simp: grantApprovalRights_def grantApprovalRights_try_def getUserByUid_cases
          split: option.splits if_splits sum.splits)
qed

lemma revokeApprovalRights_guard:
  "(map_option role (find (\<lambda>u. uid u = staffUid) (users w)) \<noteq> Some Staff \<longrightarrow>
      isl (fst (revokeApprovalRights E staffUid w))
      \<and> users (snd (revokeApprovalRights E staffUid w)) = users w)
   \<and> (users (snd (revokeApprovalRights E staffUid w)) = users w
      \<or> (\<exists>u. find (\<lambda>u. uid u = staffUid) (users w) = Some u \<and> role u = Staff
            \<and> users (snd (revokeApprovalRights E staffUid w))
                = map (\<lambda>x. if uid x = staffUid
                           then x\<lparr>canApproveStudents := Some False,
                                  updatedAt := tick E (issue (GetDoc staffUid) w)\<rparr>
                           else x) (users w)))"
proof (cases "getUserByUid E staffUid w")
  case (Pair res w1)
  then have w1: "w1 = issue (GetDoc staffUid) w" and u1: "users w1 = users w"
    by (auto simp: getUserByUid_cases issue_def split: option.splits)
  obtain r2 w2 where upd: "updateStaffApprovalPermission E staffUid False w1 = (r2, w2)"
    by (cases "updateStaffApprovalPermission E staffUid False w1")
  from updateStaffApprovalPermission_users [OF upd] Pair w1 u1 upd show ?thesis
    by (auto simp: revokeApprovalRights_def revokeApprovalRights_try_def getUserByUid_cases
          split: option.splits if_splits sum.splits)
qed

lemma toggleApprovalRights_guard:
  "(map_option role (find (\<lambda>u. uid u = staffUid) (users w)) \<noteq> Some Staff \<longrightarrow>
      isl (fst (toggleApprovalRights E staffUid w))
      \<and> users (snd (toggleApprovalRights E staffUid w)) = users w)
   \<and> (users (snd (toggleApprovalRights E staffUid w)) = users w
      \<or> (\<exists>u. find (\<lambda>u. uid u = staffUid) (users w) = Some u \<and> role u = Staff
            \<and> users (snd (toggleApprovalRights E staffUid w))
                = map (\<lambda>x. if uid x = staffUid
                           then x\<lparr>canApproveStudents := Some (\<not> is_true (canApproveStudents u)),
                                  updatedAt := tick E (issue (GetDoc staffUid) w)\<rparr>
                           else x) (users w)))"
proof (cases "getUserByUid E staffUid w")
  case (Pair res w1)
  then have w1: "w1 = issue (GetDoc staffUid) w" and u1: "users w1 = users w"
    by (auto simp: getUserByUid_cases issue_def split: option.splits)
  show ?thesis
  proof (cases "find (\<lambda>u. uid u = staffUid) (users w)")
    case None
    with Pair show ?thesis
      by (auto simp: toggleApprovalRights_def toggleApprovalRights_try_def getUserByUid_cases
            issue_def split: option.splits)
  next
    case (Some u)
    define b where "b = (\<not> is_true (canApproveStudents u))"
    obtain r2 w2 where upd: "updateStaffApprovalPermission E staffUid b w1 = (r2, w2)"
      by (cases "updateStaffApprovalPermission E staffUid b w1")
    from updateStaffApprovalPermission_users [OF upd] Pair w1 u1 upd Some show ?thesis
      unfolding b_def
      by (auto simp: toggleApprovalRights_def toggleApprovalRights_try_def getUserByUid_cases
            Let_def split: option.splits if_splits sum.splits)
  qed
qed

text \<open>
  Claim C10. When the target of \<^verbatim>\<open>grantApprovalRights\<close>, \<^verbatim>\<open>revokeApprovalRights\<close> or
  \<^verbatim>\<open>toggleApprovalRights\<close> does not exist or is not staff, the operation fails with an
  error and the directory is unchanged. Whatever the outcome, each operation leaves the
  directory as it was or writes, to an existing staff record of the given id and to no
  other record, \<open>canApproveStudents\<close> (true, false, the negation of the stored value) and
  the refreshed \<open>updatedAt\<close>.
\<close>

theorem approval_rights_guard:
  "(map_option role (find (\<lambda>u. uid u = staffUid) (users w)) \<noteq> Some Staff \<longrightarrow>
      isl (fst (grantApprovalRights E staffUid w))
      \<and> users (snd (grantApprovalRights E staffUid w)) = users w
      \<and> isl (fst (revokeApprovalRights E staffUid w))
      \<and> users (snd (revokeApprovalRights E staffUid w)) = users w
      \<and> isl (fst (toggleApprovalRights E staffUid w))
      \<and> users (snd (toggleApprovalRights E staffUid w)) = users w)
   \<and> (users (snd (grantApprovalRights E staffUid w)) = users w
      \<or> (\<exists>u. find (\<lambda>u. uid u = staffUid) (users w) = Some u \<and> role u = Staff
            \<and> users (snd (grantApprovalRights E staffUid w))
                = map (\<lambda>x. if uid x = staffUid
                           then x\<lparr>canApproveStudents := Some True,
                                  updatedAt := tick E (issue (GetDoc staffUid) w)\<rparr>
                           else x) (users w)))
   \<and> (users (snd (revokeApprovalRights E staffUid w)) = users w
      \<or> (\<exists>u. find (\<lambda>u. uid u = staffUid) (users w) = Some u \<and> role u = Staff
            \<and> users (snd (revokeApprovalRights E staffUid w))
                = map (\<lambda>x. if uid x = staffUid
                           then x\<lparr>canApproveStudents := Some False,
                                  updatedAt := tick E (issue (GetDoc staffUid) w)\<rparr>
                           else x) (users w)))
   \<and> (users (snd (toggleApprovalRights E staffUid w)) = users w
      \<or> (\<exists>u. find (\<lambda>u. uid u = staffUid) (users w) = Some u \<and> role u = Staff
            \<and> users (snd (toggleApprovalRights E staffUid w))
                = map (\<lambda>x. if uid x = staffUid
                           then x\<lparr>canApproveStudents := Some (\<not> is_true (canApproveStudents u)),
                                  updatedAt := tick E (issue (GetDoc staffUid) w)\<rparr>
                           else x) (users w)))"
  using grantApprovalRights_guard [of staffUid w E] revokeApprovalRights_guard [of staffUid w E]
        toggleApprovalRights_guard [of staffUid w E]
  by simp

text \<open>
  The theorem at three targets that are not staff: granting to student Y, revoking from
  an id without record, and toggling the administrator all fail and change nothing.
\<close>

theorem approval_rights_guard_witness:
  "isl (fst (grantApprovalRights env_ok ''y'' campus))
   \<and> users (snd (grantApprovalRights env_ok ''y'' campus)) = users campus
   \<and> isl (fst (revokeApprovalRights env_ok ''nobody'' campus))
   \<and> users (snd (revokeApprovalRights env_ok ''nobody'' campus)) = users campus
   \<and> isl (fst (toggleApprovalRights env_ok ''adm'' campus))
   \<and> users (snd (toggleApprovalRights env_ok ''adm'' campus)) = users campus"
proof -
  have y: "map_option role (find (\<lambda>u. uid u = ''y'') (users campus)) \<noteq> Some Staff"
    by (simp add: example_defs)
  have n: "map_option role (find (\<lambda>u. uid u = ''nobody'') (users campus)) \<noteq> Some Staff"
    by (simp add: example_defs)
  have a: "map_option role (find (\<lambda>u. uid u = ''adm'') (users campus)) \<noteq> Some Staff"
    by (simp add: example_defs)
  show ?thesis
    using approval_rights_guard [of "''y''" campus env_ok]
          approval_rights_guard [of "''nobody''" campus env_ok]
          approval_rights_guard [of "''adm''" campus env_ok] y n a
    by blast
qed

end
